theory Spec2Isabelle
  imports Complex_Main "HOL-Library.Multiset" "HOL-Library.AList"
begin

section \<open>Text: characters, lines, numbers\<close>

text \<open>
  A Python \<open>str\<close> is modelled as a \<open>string\<close>; every \<open>char\<close> stands for one code
  point below 256. Python floats are modelled by the rational they denote (the decimal
  value of the parsed text); rounding to a double is not part of the model.
\<close>

datatype exn = Exception string | BaseException string

definition py_isspace :: "char \<Rightarrow> bool" where
  "py_isspace c = (c \<in> set [CHR 0x09, CHR 0x0A, CHR 0x0B, CHR 0x0C, CHR 0x0D,
     CHR 0x1C, CHR 0x1D, CHR 0x1E, CHR 0x1F, CHR 0x20, CHR 0x85, CHR 0xA0])"

definition py_isdigit :: "char \<Rightarrow> bool" where
  "py_isdigit c = (c \<in> set ''0123456789'')"

definition py_lower :: "char \<Rightarrow> char" where
  "py_lower c = (case map_of (zip ''ABCDEFGHIJKLMNOPQRSTUVWXYZ''
       ''abcdefghijklmnopqrstuvwxyz'') c of Some l \<Rightarrow> l | None \<Rightarrow> c)"

definition digit_val :: "char \<Rightarrow> nat" where
  "digit_val c = of_char c - 48"

definition digits_val :: "string \<Rightarrow> nat" where
  "digits_val s = foldl (\<lambda>n c. 10 * n + digit_val c) 0 s"

text \<open>
  \<open>float(s)\<close> on the texts the metric patterns can capture: an optional sign, digits, an
  optional point, digits, with at least one digit. Any other text is the \<open>ValueError\<close>
  branch.
\<close>

definition py_float :: "string \<Rightarrow> exn + rat" where
  "py_float s =
     (let (neg, body) = (case s of [] \<Rightarrow> (False, [])
                         | c # r \<Rightarrow> if c = CHR ''-'' then (True, r)
                                    else if c = CHR ''+'' then (False, r) else (False, s));
          ip = takeWhile py_isdigit body;
          r1 = dropWhile py_isdigit body;
          fp = (case r1 of [] \<Rightarrow> [] | c # r \<Rightarrow> if c = CHR ''.'' then r else r1);
          ok = ((r1 = [] \<or> hd r1 = CHR ''.'') \<and> list_all py_isdigit fp \<and> (ip \<noteq> [] \<or> fp \<noteq> []));
          v = of_nat (digits_val ip) + of_nat (digits_val fp) / 10 ^ length fp
      in if ok then Inr (if neg then - v else v)
         else Inl (Exception ''ValueError''))"

section \<open>Regular expressions as the patterns use them\<close>

text \<open>
  The patterns of the module are sequences of single-character atoms under a quantifier,
  with one capturing group. \<open>match_here\<close> is the backtracking matcher of \<open>re\<close>: a greedy
  quantifier tries the longer match first, the lazy star the shorter one. The result is
  the text of group 1 and the input left after the match.
\<close>

datatype atom = Lit char | Space | Digit | Dot | OneOf "char list"

datatype quant = Once | Opt | Star | Plus | LazyStar

datatype node = Rep quant atom | GOpen | GClose

type_synonym regex = "node list"

fun atom_match :: "bool \<Rightarrow> atom \<Rightarrow> char \<Rightarrow> bool" where
  "atom_match ic (Lit x) c = (if ic then py_lower c = py_lower x else c = x)"
| "atom_match ic Space c = py_isspace c"
| "atom_match ic Digit c = py_isdigit c"
| "atom_match ic Dot c = (c \<noteq> CHR 0x0A)"
| "atom_match ic (OneOf xs) c = (c \<in> set xs)"

definition capture :: "bool \<Rightarrow> string \<Rightarrow> char \<Rightarrow> string" where
  "capture inG g c = (if inG then g @ [c] else g)"

fun match_here :: "bool \<Rightarrow> regex \<Rightarrow> string \<Rightarrow> bool \<Rightarrow> string \<Rightarrow> (string \<times> string) option" where
  "match_here ic [] s inG g = Some (g, s)"
| "match_here ic (GOpen # r) s inG g = match_here ic r s True []"
| "match_here ic (GClose # r) s inG g = match_here ic r s False g"
| "match_here ic (Rep Once a # r) [] inG g = None"
| "match_here ic (Rep Once a # r) (c # s) inG g =
     (if atom_match ic a c then match_here ic r s inG (capture inG g c) else None)"
| "match_here ic (Rep Opt a # r) [] inG g = match_here ic r [] inG g"
| "match_here ic (Rep Opt a # r) (c # s) inG g =
     (if atom_match ic a c
      then (case match_here ic r s inG (capture inG g c) of
              Some x \<Rightarrow> Some x
            | None \<Rightarrow> match_here ic r (c # s) inG g)
      else match_here ic r (c # s) inG g)"
| "match_here ic (Rep Star a # r) [] inG g = match_here ic r [] inG g"
| "match_here ic (Rep Star a # r) (c # s) inG g =
     (if atom_match ic a c
      then (case match_here ic (Rep Star a # r) s inG (capture inG g c) of
              Some x \<Rightarrow> Some x
            | None \<Rightarrow> match_here ic r (c # s) inG g)
      else match_here ic r (c # s) inG g)"
| "match_here ic (Rep Plus a # r) [] inG g = None"
| "match_here ic (Rep Plus a # r) (c # s) inG g =
     (if atom_match ic a c then match_here ic (Rep Star a # r) s inG (capture inG g c) else None)"
| "match_here ic (Rep LazyStar a # r) [] inG g = match_here ic r [] inG g"
| "match_here ic (Rep LazyStar a # r) (c # s) inG g =
     (case match_here ic r (c # s) inG g of
        Some x \<Rightarrow> Some x
      | None \<Rightarrow> if atom_match ic a c
                then match_here ic (Rep LazyStar a # r) s inG (capture inG g c) else None)"

text \<open>\<open>re.search\<close>: the match at the leftmost start position; the value is group 1.\<close>

fun re_search :: "bool \<Rightarrow> regex \<Rightarrow> string \<Rightarrow> string option" where
  "re_search ic re [] = map_option fst (match_here ic re [] False [])"
| "re_search ic re (c # s) =
     (case match_here ic re (c # s) False [] of
        Some x \<Rightarrow> Some (fst x)
      | None \<Rightarrow> re_search ic re s)"

definition lit :: "string \<Rightarrow> regex" where
  "lit s = map (\<lambda>c. Rep Once (Lit c)) s"

section \<open>MetricsExtractor: \<open>_parse_backtest_output\<close>\<close>

text \<open>
  The metrics dictionary keeps insertion order; it is an association list, and
  \<open>metrics[name] = v\<close> is \<open>AList.update name v\<close>.
\<close>

type_synonym metrics = "(string \<times> rat) list"

definition signed_group :: regex where
  "signed_group = [GOpen, Rep Opt (OneOf ''+-''), Rep Plus Digit, Rep Opt (Lit CHR ''.''),
                   Rep Star Digit, GClose]"

definition unsigned_group :: regex where
  "unsigned_group = [GOpen, Rep Plus Digit, Rep Opt (Lit CHR ''.''), Rep Star Digit, GClose]"

definition int_group :: regex where
  "int_group = [GOpen, Rep Plus Digit, GClose]"

text \<open>The \<open>patterns\<close> table, in the order of the source.\<close>

definition patterns :: "(string \<times> regex list) list" where
  "patterns =
    [(''return'',
        [lit ''Return'' @ [Rep Star Space] @ lit ''[%]'' @ [Rep Star Space] @ signed_group,
         lit ''Total Return'' @ [Rep LazyStar Dot] @ signed_group @ lit ''%'',
         lit ''Return'' @ [Rep LazyStar Dot] @ signed_group]),
     (''sharpe'',
        [lit ''Sharpe Ratio'' @ [Rep Star Space] @ signed_group,
         lit ''Sharpe'' @ [Rep Star Space] @ signed_group]),
     (''max_drawdown'',
        [lit ''Max'' @ [Rep Opt (Lit CHR ''.''), Rep Star Space] @ lit ''Drawdown''
           @ [Rep Star Space] @ lit ''[%]'' @ [Rep Star Space] @ signed_group,
         lit ''Max'' @ [Rep Opt (Lit CHR ''.''), Rep Star Space] @ lit ''DD''
           @ [Rep LazyStar Dot] @ signed_group]),
     (''trades'',
        [lit ''# Trades'' @ [Rep Star Space] @ int_group,
         lit ''Trades'' @ [Rep Star Space] @ int_group,
         lit ''Number of trades'' @ [Rep LazyStar Dot] @ int_group]),
     (''win_rate'',
        [lit ''Win Rate'' @ [Rep Star Space] @ lit ''[%]'' @ [Rep Star Space] @ unsigned_group,
         lit ''Win Rate'' @ [Rep LazyStar Dot] @ unsigned_group @ lit ''%''])]"

text \<open>
  The inner loop over one metric's pattern list: \<open>break\<close> at the first pattern that
  matches and whose group converts; a failed conversion is swallowed by the bare
  \<open>except\<close> and the loop goes on.
\<close>

fun try_patterns :: "regex list \<Rightarrow> string \<Rightarrow> rat option" where
  "try_patterns [] output = None"
| "try_patterns (p # ps) output =
     (case re_search True p output of
        None \<Rightarrow> try_patterns ps output
      | Some g \<Rightarrow> (case py_float g of
                    Inr v \<Rightarrow> Some v
                  | Inl e \<Rightarrow> try_patterns ps output))"

fun parse_loop :: "(string \<times> regex list) list \<Rightarrow> string \<Rightarrow> metrics \<Rightarrow> metrics" where
  "parse_loop [] output m = m"
| "parse_loop ((metric_name, pattern_list) # rest) output m =
     parse_loop rest output
       (case try_patterns pattern_list output of
          Some v \<Rightarrow> AList.update metric_name v m
        | None \<Rightarrow> m)"

definition parse_backtest_output :: "string \<Rightarrow> metrics" where
  "parse_backtest_output output = parse_loop patterns output []"

section \<open>Strings, lines and paths\<close>

definition py_startswith :: "string \<Rightarrow> string \<Rightarrow> bool" where
  "py_startswith line p = (take (length p) line = p)"

text \<open>\<open>s.split(d)\<close> and \<open>d.join(xs)\<close> for a one-character separator.\<close>

fun py_split :: "char \<Rightarrow> string \<Rightarrow> string list" where
  "py_split d [] = [[]]"
| "py_split d (c # cs) =
     (if c = d then [] # py_split d cs
      else (case py_split d cs of [] \<Rightarrow> [[c]] | w # ws \<Rightarrow> (c # w) # ws))"

fun py_join :: "char \<Rightarrow> string list \<Rightarrow> string" where
  "py_join d [] = []"
| "py_join d [x] = x"
| "py_join d (x # y # r) = x @ d # py_join d (y # r)"

text \<open>\<open>xs.insert(i, x)\<close>; an index beyond the end appends.\<close>

definition list_insert :: "nat \<Rightarrow> 'a \<Rightarrow> 'a list \<Rightarrow> 'a list" where
  "list_insert i x xs = take i xs @ x # drop i xs"

text \<open>
  \<open>Path(p).name\<close>, \<open>.suffix\<close> and \<open>.stem\<close> of a POSIX path: the last component that is
  neither empty nor a dot; the suffix starts at the last dot of the name unless that dot
  is the first or the last character.
\<close>

definition path_name :: "string \<Rightarrow> string" where
  "path_name p =
     (case filter (\<lambda>c. c \<noteq> [] \<and> c \<noteq> ''.'') (py_split CHR ''/'' p) of
        [] \<Rightarrow> []
      | c # cs \<Rightarrow> last (c # cs))"

definition py_rfind :: "char \<Rightarrow> string \<Rightarrow> int" where
  "py_rfind c s =
     (if c \<in> set s then int (length s) - 1 - int (length (takeWhile (\<lambda>x. x \<noteq> c) (rev s)))
      else - 1)"

definition name_suffix :: "string \<Rightarrow> string" where
  "name_suffix name =
     (let i = py_rfind CHR ''.'' name
      in if 0 < i \<and> i < int (length name) - 1 then drop (nat i) name else [])"

definition name_stem :: "string \<Rightarrow> string" where
  "name_stem name =
     (let i = py_rfind CHR ''.'' name
      in if 0 < i \<and> i < int (length name) - 1 then take (nat i) name else name)"

definition path_suffix :: "string \<Rightarrow> string" where
  "path_suffix p = name_suffix (path_name p)"

definition path_stem :: "string \<Rightarrow> string" where
  "path_stem p = name_stem (path_name p)"

text \<open>\<open>str(Path(d) / name)\<close> for a normalised directory path.\<close>

definition path_join :: "string \<Rightarrow> string \<Rightarrow> string" where
  "path_join d name = d @ ''/'' @ name"

section \<open>VariantGenerator: \<open>_create_strategy_variant\<close>\<close>

text \<open>
  \<open>re.sub(pattern, repl, code)\<close> replaces the non-overlapping matches from left to
  right. \<open>sub_scan\<close> walks the text; its counter is the number of characters still
  covered by the last match. The replacement of a match is a function of the matched
  text.
\<close>

fun sub_scan :: "regex \<Rightarrow> (string \<Rightarrow> string) \<Rightarrow> string \<Rightarrow> nat \<Rightarrow> string" where
  "sub_scan re f [] skip =
     (if skip = 0 \<and> match_here False re [] False [] \<noteq> None then f [] else [])"
| "sub_scan re f (c # s) 0 =
     (case match_here False re (c # s) False [] of
        None \<Rightarrow> c # sub_scan re f s 0
      | Some x \<Rightarrow>
          (let n = length (c # s) - length (snd x)
           in if n = 0 then f [] @ c # sub_scan re f s 0
              else f (take n (c # s)) @ sub_scan re f s (n - 1)))"
| "sub_scan re f (c # s) (Suc k) = sub_scan re f s k"

text \<open>
  A replacement text without a backslash is used literally. One with a backslash goes
  through the template parser of \<open>re\<close>, which raises on a bad escape; that parser is the
  parameter \<open>esc\<close>.
\<close>

type_synonym template_parser = "string \<Rightarrow> exn + (string \<Rightarrow> string)"

definition compile_repl :: "template_parser \<Rightarrow> string \<Rightarrow> exn + (string \<Rightarrow> string)" where
  "compile_repl esc repl = (if CHR 0x5C \<in> set repl then esc repl else Inr (\<lambda>m. repl))"

definition re_sub :: "template_parser \<Rightarrow> regex \<Rightarrow> string \<Rightarrow> string \<Rightarrow> exn + string" where
  "re_sub esc re repl code =
     (case compile_repl esc repl of
        Inl e \<Rightarrow> Inl e
      | Inr f \<Rightarrow> Inr (sub_scan re f code 0))"

definition quote :: atom where
  "quote = OneOf [CHR 0x22, CHR 0x27]"

definition patterns_to_replace :: "string \<Rightarrow> (regex \<times> string) list" where
  "patterns_to_replace data_file_path =
    [(lit ''data_path'' @ [Rep Star Space] @ lit ''='' @ [Rep Star Space]
        @ [Rep Once quote, Rep LazyStar Dot, Rep Once quote],
      ''data_path = '' @ [CHR 0x22] @ data_file_path @ [CHR 0x22]),
     (lit ''pd.read_csv('' @ [Rep Once quote, Rep LazyStar Dot, Rep Once quote] @ lit '')'',
      ''pd.read_csv('' @ [CHR 0x22] @ data_file_path @ [CHR 0x22] @ '')''),
     (lit ''data'' @ [Rep Star Space] @ lit ''='' @ [Rep Star Space] @ lit ''pd.read_csv(''
        @ [Rep Once quote, Rep LazyStar Dot, Rep Once quote] @ lit '')'',
      ''data = pd.read_csv('' @ [CHR 0x22] @ data_file_path @ [CHR 0x22] @ '')'')]"

text \<open>The loop over the rewrite rules, with the flag \<open>data_path_replaced\<close>.\<close>

fun replace_loop ::
  "template_parser \<Rightarrow> (regex \<times> string) list \<Rightarrow> string \<Rightarrow> bool \<Rightarrow> exn + (string \<times> bool)" where
  "replace_loop esc [] code data_path_replaced = Inr (code, data_path_replaced)"
| "replace_loop esc ((pattern, replacement) # rest) code data_path_replaced =
     (if re_search False pattern code \<noteq> None
      then (case re_sub esc pattern replacement code of
              Inl e \<Rightarrow> Inl e
            | Inr code' \<Rightarrow> replace_loop esc rest code' True)
      else replace_loop esc rest code data_path_replaced)"

definition is_header_line :: "string \<Rightarrow> bool" where
  "is_header_line line =
     (py_startswith line ''import '' \<or> py_startswith line ''from ''
      \<or> list_all py_isspace line \<or> py_startswith line ''#'')"

text \<open>The loop that finds the end of the import section: \<open>i\<close> is the index of the line.\<close>

fun find_import_end :: "string list \<Rightarrow> nat \<Rightarrow> nat \<Rightarrow> nat" where
  "find_import_end [] i import_end_idx = import_end_idx"
| "find_import_end (line # rest) i import_end_idx =
     (if is_header_line line then find_import_end rest (i + 1) (i + 1) else import_end_idx)"

definition inject_data_path :: "string \<Rightarrow> string \<Rightarrow> string \<Rightarrow> string" where
  "inject_data_path code asset data_file_path =
     (let lines0 = py_split CHR 0x0A code;
          import_end_idx = find_import_end lines0 0 0;
          lines1 = list_insert import_end_idx
                     ([CHR 0x0A] @ ''# Data path for '' @ asset
                        @ '' (injected by Multi-Asset Tester)'') lines0;
          lines2 = list_insert (import_end_idx + 1)
                     (''data_path = '' @ [CHR 0x22] @ data_file_path @ [CHR 0x22]) lines1;
          lines3 = list_insert (import_end_idx + 2) [] lines2
      in py_join CHR 0x0A lines3)"

text \<open>The text transformation of \<open>_create_strategy_variant\<close>: rewrite, else inject.\<close>

definition variant_code :: "template_parser \<Rightarrow> string \<Rightarrow> string \<Rightarrow> string \<Rightarrow> exn + string" where
  "variant_code esc code asset data_file_path =
     (case replace_loop esc (patterns_to_replace data_file_path) code False of
        Inl e \<Rightarrow> Inl e
      | Inr (code', data_path_replaced) \<Rightarrow>
          if \<not> data_path_replaced then Inr (inject_data_path code' asset data_file_path)
          else Inr code')"

text \<open>
  The file system: the text of every file, and the directories that can be created and
  written. Creating the output directory, reading the strategy and the template of
  \<open>re.sub\<close> are the places that raise.
\<close>

record filesystem =
  files :: "string \<rightharpoonup> string"
  writable :: "string \<Rightarrow> bool"

definition new_filename :: "string \<Rightarrow> string \<Rightarrow> string" where
  "new_filename strategy_path asset = path_stem strategy_path @ ''_'' @ asset @ ''.py''"

definition create_strategy_variant ::
  "template_parser \<Rightarrow> filesystem \<Rightarrow> string \<Rightarrow> string \<Rightarrow> string \<Rightarrow> string
     \<Rightarrow> exn + (string \<times> filesystem)" where
  "create_strategy_variant esc fs strategy_path asset data_file_path temp_dir =
     (if \<not> writable fs temp_dir then Inl (Exception ''OSError'')
      else
        (let new_path = path_join temp_dir (new_filename strategy_path asset)
         in case files fs strategy_path of
              None \<Rightarrow> Inl (Exception ''FileNotFoundError'')
            | Some code \<Rightarrow>
                (case variant_code esc code asset data_file_path of
                   Inl e \<Rightarrow> Inl e
                 | Inr code' \<Rightarrow> Inr (new_path, fs\<lparr>files := (files fs)(new_path \<mapsto> code')\<rparr>))))"

section \<open>The worker: \<open>test_strategy_on_asset\<close>\<close>

text \<open>
  The tester object holds the configuration of \<open>__init__\<close>; the catalog
  \<open>available_assets\<close> is a dictionary in insertion order, from symbol to data file.
  The worker count and the timeout are Python integers: \<open>__init__\<close> keeps what it is
  given, \<open>max_workers or mp.cpu_count()\<close> replacing only a missing or zero count, so a
  negative count stays.
\<close>

record tester =
  data_dir :: string
  max_workers :: int
  timeout :: int
  conda_env :: string
  available_assets :: "(string \<times> string) list"

definition tester_init ::
  "string \<Rightarrow> int option \<Rightarrow> int \<Rightarrow> string \<Rightarrow> int \<Rightarrow> (string \<times> string) list \<Rightarrow> tester" where
  "tester_init dir workers tmo env cpu_count discovered =
     \<lparr>data_dir = dir,
      max_workers = (case workers of None \<Rightarrow> cpu_count
                     | Some n \<Rightarrow> if n = 0 then cpu_count else n),
      timeout = tmo, conda_env = env, available_assets = discovered\<rparr>"

text \<open>
  The dictionary returned by \<open>run_backtest_in_conda\<close>; a key that is absent is \<open>None\<close>.
\<close>

record backtest_result =
  bt_success :: "bool option"
  bt_stdout :: "string option"
  bt_stderr :: "string option"
  bt_error :: "string option"

text \<open>The result dictionary; \<open>stdout\<close> and \<open>stderr\<close> are keys added on some paths only.\<close>

record test_result =
  res_strategy :: string
  res_asset :: string
  res_data_path :: string
  res_status :: string
  res_error :: "string option"
  res_metrics :: metrics
  res_execution_time :: rat
  res_timestamp :: string
  res_stdout :: "string option"
  res_stderr :: "string option"

text \<open>
  What a worker sees of the world: the file system, the clock readings
  (\<open>datetime.now().isoformat()\<close>, \<open>time.time()\<close> before the \<open>try\<close> and after the call of
  the runner or in the handler), the template parser of \<open>re\<close>, and the runner
  \<open>run_backtest_in_conda\<close>, whose module is not part of the sources: it is a parameter,
  a function of the variant path, the environment name and the file system, which
  returns a dictionary or raises.
\<close>

record task_env =
  fs :: filesystem
  now_iso :: string
  t_start :: rat
  t_end :: rat
  template_esc :: template_parser
  run_backtest_in_conda :: "string \<Rightarrow> string \<Rightarrow> filesystem \<Rightarrow> exn + backtest_result"

definition dict_get :: "'a option \<Rightarrow> 'a \<Rightarrow> 'a" where
  "dict_get v d = (case v of None \<Rightarrow> d | Some x \<Rightarrow> x)"

text \<open>
  The body of the \<open>try\<close>. Both raising calls come before the first assignment to
  \<open>result\<close>, so the handler sees the initial dictionary.
\<close>

definition try_body ::
  "tester \<Rightarrow> task_env \<Rightarrow> test_result \<Rightarrow> string \<Rightarrow> string \<Rightarrow> string \<Rightarrow> string
     \<Rightarrow> exn + test_result" where
  "try_body self env result strategy_path asset data_path temp_dir =
     (case create_strategy_variant (template_esc env) (fs env) strategy_path asset data_path temp_dir of
        Inl e \<Rightarrow> Inl e
      | Inr (modified_strategy, fs') \<Rightarrow>
          (case run_backtest_in_conda env modified_strategy (conda_env self) fs' of
             Inl e \<Rightarrow> Inl e
           | Inr backtest_result \<Rightarrow>
               (let execution_time = t_end env - t_start env;
                    result1 = result\<lparr>res_execution_time := execution_time\<rparr>
                in if bt_success backtest_result = Some True
                   then Inr (result1\<lparr>res_status := ''success'',
                               res_stdout := Some (dict_get (bt_stdout backtest_result) []),
                               res_stderr := Some (dict_get (bt_stderr backtest_result) []),
                               res_metrics :=
                                 parse_backtest_output (dict_get (bt_stdout backtest_result) [])\<rparr>)
                   else Inr (result1\<lparr>res_status := ''failed'',
                               res_error := Some (dict_get (bt_error backtest_result) ''Unknown error''),
                               res_stderr := Some (dict_get (bt_stderr backtest_result) [])\<rparr>))))"

text \<open>
  \<open>except Exception\<close> catches \<open>Exception\<close> and lets any other \<open>BaseException\<close> leave the
  function.
\<close>

definition test_strategy_on_asset ::
  "tester \<Rightarrow> task_env \<Rightarrow> string \<Rightarrow> string \<Rightarrow> string \<Rightarrow> string \<Rightarrow> exn + test_result" where
  "test_strategy_on_asset self env strategy_path asset data_path temp_dir =
     (let strategy_name = path_stem strategy_path;
          result = \<lparr>res_strategy = strategy_name, res_asset = asset,
                    res_data_path = data_path, res_status = ''unknown'',
                    res_error = None, res_metrics = [], res_execution_time = 0,
                    res_timestamp = now_iso env, res_stdout = None, res_stderr = None\<rparr>;
          start_time = t_start env
      in case try_body self env result strategy_path asset data_path temp_dir of
           Inr result' \<Rightarrow> Inr result'
         | Inl (Exception msg) \<Rightarrow>
             Inr (result\<lparr>res_status := ''error'', res_error := Some msg,
                         res_execution_time := t_end env - start_time\<rparr>)
         | Inl (BaseException msg) \<Rightarrow> Inl (BaseException msg))"

section \<open>The orchestrator: \<open>test_strategy_on_all_assets\<close>\<close>

text \<open>
  The pool: the outcome of \<open>mkdtemp\<close> (the temporary directory, or the exception it
  raises); the largest worker count the platform accepts, if it has one; for the task
  of every asset, the world of its worker and whether its worker process died (its
  future then raises \<open>BrokenProcessPool\<close>); and the order in which \<open>as_completed\<close> yields
  the futures.
\<close>

record pool_env =
  mkdtemp :: "exn + string"
  max_pool_workers :: "int option"
  worker_env :: "string \<Rightarrow> task_env"
  crashed :: "string \<Rightarrow> bool"
  as_completed :: "(exn + test_result) list \<Rightarrow> (exn + test_result) list"

text \<open>
  \<open>ProcessPoolExecutor(max_workers=n)\<close> raises \<open>ValueError\<close> for a count that is not
  positive or is above the platform's limit.
\<close>

definition executor_init :: "int \<Rightarrow> int option \<Rightarrow> exn + unit" where
  "executor_init n limit =
     (if n \<le> 0 then Inl (Exception ''ValueError'')
      else (case limit of
              None \<Rightarrow> Inr ()
            | Some m \<Rightarrow> if m < n then Inl (Exception ''ValueError'') else Inr ()))"

type_synonym task = "string \<times> string \<times> string \<times> string"

definition make_tasks :: "tester \<Rightarrow> string \<Rightarrow> string \<Rightarrow> task list" where
  "make_tasks self strategy_path temp_dir =
     map (\<lambda>(asset, data_path). (strategy_path, asset, data_path, temp_dir)) (available_assets self)"

text \<open>\<open>future.result()\<close> of the future submitted for a task.\<close>

definition future_result :: "tester \<Rightarrow> pool_env \<Rightarrow> task \<Rightarrow> exn + test_result" where
  "future_result self pool t =
     (case t of (strategy_path, asset, data_path, temp_dir) \<Rightarrow>
        if crashed pool asset then Inl (Exception ''BrokenProcessPool'')
        else test_strategy_on_asset self (worker_env pool asset) strategy_path asset data_path temp_dir)"

text \<open>
  The loop over \<open>as_completed\<close>: a result is appended; an \<open>Exception\<close> is printed and
  counted as completed; any other \<open>BaseException\<close> leaves the loop. Before the loop,
  \<open>mkdtemp\<close> and the construction of the pool are outside any \<open>try\<close>: what they raise
  leaves the function.
\<close>

fun collect :: "(exn + test_result) list \<Rightarrow> test_result list \<Rightarrow> nat
    \<Rightarrow> exn + (test_result list \<times> nat)" where
  "collect [] results completed = Inr (results, completed)"
| "collect (Inr result # futures) results completed =
     collect futures (results @ [result]) (completed + 1)"
| "collect (Inl (Exception msg) # futures) results completed =
     collect futures results (completed + 1)"
| "collect (Inl (BaseException msg) # futures) results completed = Inl (BaseException msg)"

definition test_strategy_on_all_assets ::
  "tester \<Rightarrow> pool_env \<Rightarrow> string \<Rightarrow> exn + test_result list" where
  "test_strategy_on_all_assets self pool strategy_path =
     (if available_assets self = [] then Inr []
      else
        (case mkdtemp pool of
           Inl e \<Rightarrow> Inl e
         | Inr temp_dir \<Rightarrow>
             (let tasks = make_tasks self strategy_path temp_dir
              in case executor_init (max_workers self) (max_pool_workers pool) of
                   Inl e \<Rightarrow> Inl e
                 | Inr u \<Rightarrow>
                     (let futures = map (future_result self pool) tasks
                      in case collect (as_completed pool futures) [] 0 of
                           Inl e \<Rightarrow> Inl e
                         | Inr (results, completed) \<Rightarrow> Inr results))))"

section \<open>RankingReporter: \<open>print_summary\<close>\<close>

text \<open>\<open>d[k]\<close> raises \<open>KeyError\<close> on a missing key.\<close>

definition dict_index :: "metrics \<Rightarrow> string \<Rightarrow> exn + rat" where
  "dict_index d k = (case map_of d k of None \<Rightarrow> Inl (Exception (''KeyError: '' @ k)) | Some v \<Rightarrow> Inr v)"

definition sort_key_sharpe :: "test_result \<Rightarrow> rat" where
  "sort_key_sharpe x = (case map_of (res_metrics x) ''sharpe'' of None \<Rightarrow> - 999 | Some v \<Rightarrow> v)"

text \<open>
  The list \<open>successful_with_metrics\<close> after \<open>sort(key=..., reverse=True)\<close>: a stable sort,
  descending in the key.
\<close>

definition successful_with_metrics :: "test_result list \<Rightarrow> test_result list" where
  "successful_with_metrics results =
     sort_key (\<lambda>x. - sort_key_sharpe x)
       (filter (\<lambda>r. map_of (res_metrics r) ''sharpe'' \<noteq> None)
          (filter (\<lambda>r. res_status r = ''success'') results))"

text \<open>\<open>sum(r['metrics'][k] for r in rs)\<close>\<close>

fun sum_metric :: "string \<Rightarrow> test_result list \<Rightarrow> exn + rat" where
  "sum_metric k [] = Inr 0"
| "sum_metric k (r # rs) =
     (case dict_index (res_metrics r) k of
        Inl e \<Rightarrow> Inl e
      | Inr v \<Rightarrow> (case sum_metric k rs of Inl e \<Rightarrow> Inl e | Inr s \<Rightarrow> Inr (v + s)))"

text \<open>
  A rational stands for the double nearest to it; one whose magnitude reaches
  \<open>2^1024 - 2^970\<close> stands for an infinity. \<open>int(x)\<close> truncates towards zero and raises
  \<open>OverflowError\<close> on an infinity.
\<close>

definition double_overflows :: "rat \<Rightarrow> bool" where
  "double_overflows v = (2 ^ 1024 - 2 ^ 970 \<le> \<bar>v\<bar>)"

definition py_int :: "rat \<Rightarrow> exn + int" where
  "py_int v =
     (if double_overflows v then Inl (Exception ''OverflowError'')
      else Inr (if 0 \<le> v then \<lfloor>v\<rfloor> else - \<lfloor>- v\<rfloor>))"

text \<open>
  The loop that prints the ranking table: one row per ranked result, with its rank,
  asset, Sharpe, return, trades and win rate, a missing metric being \<open>'N/A'\<close> (here
  \<open>None\<close>). The trades value goes through \<open>int\<close>.
\<close>

type_synonym table_row = "nat \<times> string \<times> rat option \<times> rat option \<times> int option \<times> rat option"

fun table_rows :: "nat \<Rightarrow> test_result list \<Rightarrow> exn + table_row list" where
  "table_rows i [] = Inr []"
| "table_rows i (result # rest) =
     (let metrics = res_metrics result;
          sharpe = map_of metrics ''sharpe'';
          ret = map_of metrics ''return'';
          trades = map_of metrics ''trades'';
          win_rate = map_of metrics ''win_rate''
      in case (case trades of None \<Rightarrow> Inr None | Some t \<Rightarrow> map_sum id Some (py_int t)) of
           Inl e \<Rightarrow> Inl e
         | Inr trades_str \<Rightarrow>
             (case table_rows (i + 1) rest of
                Inl e \<Rightarrow> Inl e
              | Inr rows \<Rightarrow>
                  Inr ((i, res_asset result, sharpe, ret, trades_str, win_rate) # rows)))"

record ranking =
  rk_ranked :: "test_result list"
  rk_table :: "table_row list"
  rk_best :: test_result
  rk_worst :: test_result
  rk_avg_sharpe :: rat
  rk_avg_return :: rat

record summary =
  sm_total :: nat
  sm_successful :: nat
  sm_failed :: nat
  sm_ranking :: "ranking option"

text \<open>
  What \<open>print_summary\<close> prints, as a value: nothing for an empty result list, the
  counts, and the ranking with its table and the averages when there is a success
  with a Sharpe value. The table comes first; the lines for the best and the worst
  asset and the two averages then index the metrics directly.
\<close>

definition ranking_of :: "test_result list \<Rightarrow> exn + ranking" where
  "ranking_of swm =
     (case table_rows 1 swm of Inl e \<Rightarrow> Inl e | Inr rows \<Rightarrow>
      let best = hd swm; worst = last swm
      in case dict_index (res_metrics best) ''sharpe'' of Inl e \<Rightarrow> Inl e | Inr bs \<Rightarrow>
         case dict_index (res_metrics best) ''return'' of Inl e \<Rightarrow> Inl e | Inr br \<Rightarrow>
         case dict_index (res_metrics worst) ''sharpe'' of Inl e \<Rightarrow> Inl e | Inr ws \<Rightarrow>
         case dict_index (res_metrics worst) ''return'' of Inl e \<Rightarrow> Inl e | Inr wr \<Rightarrow>
         case sum_metric ''sharpe'' swm of Inl e \<Rightarrow> Inl e | Inr ssum \<Rightarrow>
         case sum_metric ''return'' swm of Inl e \<Rightarrow> Inl e | Inr rsum \<Rightarrow>
           Inr \<lparr>rk_ranked = swm, rk_table = rows, rk_best = best, rk_worst = worst,
                rk_avg_sharpe = ssum / of_nat (length swm),
                rk_avg_return = rsum / of_nat (length swm)\<rparr>)"

definition print_summary :: "test_result list \<Rightarrow> exn + summary option" where
  "print_summary results =
     (if results = [] then Inr None
      else
        (let successful = filter (\<lambda>r. res_status r = ''success'') results;
             failed = filter (\<lambda>r. res_status r \<in> set [''failed'', ''error'']) results;
             swm = successful_with_metrics results;
             counts = \<lparr>sm_total = length results, sm_successful = length successful,
                       sm_failed = length failed, sm_ranking = None\<rparr>
         in if swm \<noteq> []
            then (case ranking_of swm of
                    Inl e \<Rightarrow> Inl e
                  | Inr rk \<Rightarrow> Inr (Some (counts\<lparr>sm_ranking := Some rk\<rparr>)))
            else Inr (Some counts)))"

section \<open>Notions used in the properties\<close>

text \<open>A pattern hits a text when it matches and its group converts to a number.\<close>

definition pattern_hit :: "regex \<Rightarrow> string \<Rightarrow> bool" where
  "pattern_hit p output =
     (case re_search True p output of
        None \<Rightarrow> False
      | Some g \<Rightarrow> (case py_float g of Inr v \<Rightarrow> True | Inl e \<Rightarrow> False))"

text \<open>Scenario D: the two lines of runner output.\<close>

definition scenario_d :: string where
  "scenario_d = ''Sharpe Ratio    1.85'' @ [CHR 0x0A] @ ''Return [%]   12.40''"

text \<open>
  A small world for concrete runs: one strategy file without a data reference, a runner
  that reports the failure of Scenario C, one that succeeds with the output of Scenario D
  after 1000 seconds, and one that raises.
\<close>

definition demo_tester :: tester where
  "demo_tester = \<lparr>data_dir = ''/d'', max_workers = 2, timeout = 300, conda_env = ''tflow'',
                   available_assets = [(''BTCUSDT'', ''/d/BTCUSDT.csv'')]\<rparr>"

definition demo_fs :: filesystem where
  "demo_fs = \<lparr>files = [''/s/strat.py'' \<mapsto> ''import os'' @ [CHR 0x0A] @ ''x = 1''],
               writable = (\<lambda>d. True)\<rparr>"

definition no_escapes :: template_parser where
  "no_escapes repl = Inl (Exception ''re.error: bad escape'')"

definition failing_env :: task_env where
  "failing_env = \<lparr>fs = demo_fs, now_iso = ''2025-01-01T00:00:00'', t_start = 0, t_end = 2,
       template_esc = no_escapes,
       run_backtest_in_conda = (\<lambda>p e f. Inr \<lparr>bt_success = Some False, bt_stdout = Some [],
           bt_stderr = Some ''Traceback'', bt_error = Some ''division by zero''\<rparr>)\<rparr>"

definition slow_env :: task_env where
  "slow_env = \<lparr>fs = demo_fs, now_iso = ''2025-01-01T00:00:00'', t_start = 0, t_end = 1000,
       template_esc = no_escapes,
       run_backtest_in_conda = (\<lambda>p e f. Inr \<lparr>bt_success = Some True, bt_stdout = Some scenario_d,
           bt_stderr = Some [], bt_error = None\<rparr>)\<rparr>"

definition raising_env :: task_env where
  "raising_env = \<lparr>fs = demo_fs, now_iso = ''2025-01-01T00:00:00'', t_start = 0, t_end = 1000,
       template_esc = no_escapes,
       run_backtest_in_conda = (\<lambda>p e f. Inl (Exception ''TimeoutExpired''))\<rparr>"

text \<open>The results of the futures that returned, in the order given.\<close>

fun returned :: "(exn + test_result) list \<Rightarrow> test_result list" where
  "returned [] = []"
| "returned (Inr r # futures) = r # returned futures"
| "returned (Inl e # futures) = returned futures"

text \<open>
  Two pools for concrete runs. In the first the only worker process dies. In the
  second, over two assets, the runner reports a failure for one asset and raises for
  the other, and the second task completes first.
\<close>

definition crash_pool :: pool_env where
  "crash_pool = \<lparr>mkdtemp = Inr ''/tmp/m'', max_pool_workers = None,
                  worker_env = (\<lambda>a. failing_env),
                  crashed = (\<lambda>a. True), as_completed = (\<lambda>futures. futures)\<rparr>"

definition two_tester :: tester where
  "two_tester = demo_tester\<lparr>available_assets :=
       [(''BTCUSDT'', ''/d/BTCUSDT.csv''), (''ETHUSDT'', ''/d/ETHUSDT.csv'')]\<rparr>"

definition two_pool :: pool_env where
  "two_pool = \<lparr>mkdtemp = Inr ''/tmp/m'', max_pool_workers = None,
                worker_env = (\<lambda>a. if a = ''BTCUSDT'' then failing_env else raising_env),
                crashed = (\<lambda>a. False), as_completed = rev\<rparr>"

text \<open>
  Results for concrete summaries: two successes with both metrics, a failure, and the
  success of a run whose output had a Sharpe line and no return line.
\<close>

definition result_with :: "string \<Rightarrow> string \<Rightarrow> metrics \<Rightarrow> test_result" where
  "result_with a st m =
     \<lparr>res_strategy = ''strat'', res_asset = a, res_data_path = ''/d/'' @ a @ ''.csv'',
      res_status = st, res_error = None, res_metrics = m, res_execution_time = 1,
      res_timestamp = ''2025-01-01T00:00:00'', res_stdout = None, res_stderr = None\<rparr>"

definition demo_results :: "test_result list" where
  "demo_results =
     [result_with ''BTCUSDT'' ''success'' [(''return'', 2), (''sharpe'', 1)],
      result_with ''SOLUSDT'' ''failed'' [],
      result_with ''ETHUSDT'' ''success'' [(''return'', 4), (''sharpe'', 3)]]"

definition sharpe_only_result :: test_result where
  "sharpe_only_result =
     \<lparr>res_strategy = ''strat'', res_asset = ''BTCUSDT'', res_data_path = ''/d/BTCUSDT.csv'',
      res_status = ''success'', res_error = None, res_metrics = [(''sharpe'', 37 / 20)],
      res_execution_time = 2, res_timestamp = ''2025-01-01T00:00:00'',
      res_stdout = Some ''Sharpe Ratio    1.85'', res_stderr = Some []\<rparr>"

text \<open>
  The texts a group of the metric patterns can capture: an optional sign, one or more
  digits, an optional point, digits.
\<close>

definition numeral_text :: "string \<Rightarrow> bool" where
  "numeral_text g =
     (\<exists>sign ds1 dot ds2. g = sign @ ds1 @ dot @ ds2 \<and> sign \<in> {[], ''+'', ''-''}
        \<and> ds1 \<noteq> [] \<and> list_all py_isdigit ds1 \<and> dot \<in> {[], ''.''} \<and> list_all py_isdigit ds2)"

text \<open>
  A pattern is well grouped when it is a prefix without group, one of the three
  number groups, and a suffix without group.
\<close>

definition group_split :: "regex \<Rightarrow> regex \<times> regex \<times> regex" where
  "group_split p =
     (takeWhile (\<lambda>n. n \<noteq> GOpen) p,
      takeWhile (\<lambda>n. n \<noteq> GClose) (dropWhile (\<lambda>n. n \<noteq> GOpen) p) @ [GClose],
      drop 1 (dropWhile (\<lambda>n. n \<noteq> GClose) (dropWhile (\<lambda>n. n \<noteq> GOpen) p)))"

definition well_grouped :: "regex \<Rightarrow> bool" where
  "well_grouped p =
     (case group_split p of (pre, grp, post) \<Rightarrow>
        p = pre @ grp @ post \<and> GOpen \<notin> set pre \<and> GClose \<notin> set pre
        \<and> GOpen \<notin> set post \<and> GClose \<notin> set post
        \<and> grp \<in> set [signed_group, unsigned_group, int_group])"

text \<open>
  A tester with a timeout of 5 seconds and a runner call that returns success after 60
  seconds; a runner whose output has a Sharpe line and no return line; and the tester
  that \<open>--workers -1\<close> builds.
\<close>

definition overrun_tester :: tester where
  "overrun_tester = demo_tester\<lparr>timeout := 5\<rparr>"

definition overrun_env :: task_env where
  "overrun_env = slow_env\<lparr>t_end := 60\<rparr>"

definition sharpe_only_env :: task_env where
  "sharpe_only_env = \<lparr>fs = demo_fs, now_iso = ''2025-01-01T00:00:00'', t_start = 0, t_end = 2,
       template_esc = no_escapes,
       run_backtest_in_conda = (\<lambda>p e f. Inr \<lparr>bt_success = Some True,
           bt_stdout = Some ''Sharpe Ratio    1.85'', bt_stderr = Some [], bt_error = None\<rparr>)\<rparr>"

definition negative_tester :: tester where
  "negative_tester = tester_init ''/d'' (Some (- 1)) 300 ''tflow'' 8
                       [(''BTCUSDT'', ''/d/BTCUSDT.csv'')]"

text \<open>The value of a trades text of four hundred nines, rounded up by one.\<close>

definition huge_trades :: rat where
  "huge_trades = 10 ^ 400"

section \<open>Properties of the metrics extractor\<close>

lemma patterns_distinct: "distinct (map fst patterns)"
  by (simp add: patterns_def)

lemma map_of_parse_loop:
  "distinct (map fst tbl) \<Longrightarrow>
   map_of (parse_loop tbl output m) name =
     (case map_of tbl name of
        None \<Rightarrow> map_of m name
      | Some ps \<Rightarrow> (case try_patterns ps output of Some v \<Rightarrow> Some v | None \<Rightarrow> map_of m name))"
proof (induction tbl arbitrary: m)
  case Nil
  then show ?case by simp
next
  case (Cons a tbl)
  obtain n ps where a: "a = (n, ps)" by (cases a)
  from Cons.prems a have d: "distinct (map fst tbl)" and nin: "n \<notin> fst ` set tbl" by auto
  from nin have mo: "map_of tbl n = None" by (simp add: map_of_eq_None_iff)
  show ?case
    using Cons.IH[OF d] mo a
    by (auto simp: update_conv' split: option.splits)
qed

lemma map_of_parse_backtest_output:
  "map_of (parse_backtest_output output) name =
     (case map_of patterns name of None \<Rightarrow> None | Some ps \<Rightarrow> try_patterns ps output)"
  unfolding parse_backtest_output_def
  by (simp add: map_of_parse_loop[OF patterns_distinct] split: option.splits)

lemma distinct_parse_loop:
  "distinct (map fst m) \<Longrightarrow> distinct (map fst (parse_loop tbl output m))"
  by (induction tbl arbitrary: m) (auto simp: distinct_update split: option.splits)

lemma distinct_parse_backtest_output: "distinct (map fst (parse_backtest_output output))"
  unfolding parse_backtest_output_def by (rule distinct_parse_loop) simp

lemma try_patterns_None:
  "(try_patterns ps output = None) = (\<forall>p \<in> set ps. \<not> pattern_hit p output)"
  by (induction ps) (auto simp: pattern_hit_def split: option.splits sum.splits)

lemma try_patterns_first:
  "\<forall>q \<in> set pre. \<not> pattern_hit q output \<Longrightarrow> re_search True p output = Some g
   \<Longrightarrow> py_float g = Inr v \<Longrightarrow> try_patterns (pre @ p # post) output = Some v"
  by (induction pre) (auto simp: pattern_hit_def split: option.splits sum.splits)

lemma patterns_have_group:
  "\<forall>(name, ps) \<in> set patterns. \<forall>p \<in> set ps. GOpen \<in> set p \<and> GClose \<in> set p"
  by (simp add: patterns_def signed_group_def unsigned_group_def int_group_def lit_def)

lemma parse_empty: "parse_backtest_output [] = []"
  by code_simp

lemma parse_scenario_d:
  "parse_backtest_output scenario_d = [(''return'', 62 / 5), (''sharpe'', 37 / 20)]"
  by code_simp

lemma key_in_parse:
  "(name \<in> fst ` set (parse_backtest_output output)) =
     (\<exists>ps p. (name, ps) \<in> set patterns \<and> p \<in> set ps \<and> pattern_hit p output)"
proof -
  have "(name \<in> fst ` set (parse_backtest_output output))
          = (map_of (parse_backtest_output output) name \<noteq> None)"
    by (simp add: map_of_eq_None_iff)
  also have "\<dots> = (\<exists>ps. map_of patterns name = Some ps \<and> try_patterns ps output \<noteq> None)"
    by (simp add: map_of_parse_backtest_output split: option.splits)
  also have "\<dots> = (\<exists>ps. (name, ps) \<in> set patterns \<and> try_patterns ps output \<noteq> None)"
    using patterns_distinct by (metis map_of_eq_Some_iff)
  also have "\<dots> = (\<exists>ps p. (name, ps) \<in> set patterns \<and> p \<in> set ps \<and> pattern_hit p output)"
    by (auto simp: try_patterns_None)
  finally show ?thesis .
qed

lemma value_in_parse:
  "(name, v) \<in> set (parse_backtest_output output) \<Longrightarrow>
     \<exists>ps. (name, ps) \<in> set patterns \<and> try_patterns ps output = Some v"
proof -
  assume "(name, v) \<in> set (parse_backtest_output output)"
  then have "map_of (parse_backtest_output output) name = Some v"
    using distinct_parse_backtest_output by simp
  then obtain ps where "map_of patterns name = Some ps" "try_patterns ps output = Some v"
    by (auto simp: map_of_parse_backtest_output split: option.splits)
  then show ?thesis by (auto dest: map_of_SomeD)
qed

lemma match_no_group_keeps:
  "match_here ic r s inG g = Some (g', rest) \<Longrightarrow> GOpen \<notin> set r \<Longrightarrow> GClose \<notin> set r \<Longrightarrow> \<not> inG
   \<Longrightarrow> g' = g"
  by (induction ic r s inG g rule: match_here.induct)
     (auto simp: capture_def split: if_splits option.splits)

lemma match_prefix_no_group:
  "match_here ic nodes s inG g = Some x \<Longrightarrow> nodes = pre @ q \<Longrightarrow> GOpen \<notin> set pre
   \<Longrightarrow> GClose \<notin> set pre \<Longrightarrow> \<not> inG \<Longrightarrow> \<exists>s'. match_here ic q s' False g = Some x"
proof (induction ic nodes s inG g arbitrary: pre rule: match_here.induct)
  case (1 ic s inG g)
  then show ?case by auto
next
  case (2 ic r s inG g)
  then show ?case by (cases pre) auto
next
  case (3 ic r s inG g)
  then show ?case by (cases pre) auto
next
  case (4 ic a r inG g)
  then show ?case by (cases pre) auto
next
  case (5 ic a r c s inG g)
  then show ?case by (cases pre) (auto simp: capture_def split: if_splits)
next
  case (6 ic a r inG g)
  then show ?case by (cases pre) auto
next
  case (7 ic a r c s inG g)
  then show ?case by (cases pre) (auto simp: capture_def split: if_splits option.splits)
next
  case (8 ic a r inG g)
  then show ?case by (cases pre) auto
next
  case (9 ic a r c s inG g)
  then show ?case by (cases pre) (auto simp: capture_def split: if_splits option.splits)
next
  case (10 ic a r inG g)
  then show ?case by (cases pre) auto
next
  case (11 ic a r c s inG g)
  show ?case
  proof (cases pre)
    case Nil
    with "11.prems" show ?thesis by auto
  next
    case (Cons n list)
    with "11.prems" have n: "n = Rep Plus a" and r: "r = list @ q"
      and ng: "GOpen \<notin> set list" "GClose \<notin> set list" by auto
    from "11.prems"(1) have am: "atom_match ic a c"
      and m: "match_here ic (Rep Star a # r) s inG (capture inG g c) = Some x"
      by (auto split: if_splits)
    have "capture inG g c = g" using "11.prems"(5) by (simp add: capture_def)
    with m have m': "match_here ic (Rep Star a # r) s inG g = Some x" by simp
    have "\<exists>s'. match_here ic q s' False (capture inG g c) = Some x"
      by (rule "11.IH" [OF am m, of "Rep Star a # list"]) (use r ng "11.prems"(5) in auto)
    then show ?thesis using \<open>capture inG g c = g\<close> by simp
  qed
next
  case (12 ic a r inG g)
  then show ?case by (cases pre) auto
next
  case (13 ic a r c s inG g)
  then show ?case by (cases pre) (auto simp: capture_def split: if_splits option.splits)
qed

lemma opt_capture:
  "match_here ic (Rep Opt a # r) s True g = Some x \<Longrightarrow>
     (\<exists>s'. match_here ic r s' True g = Some x)
     \<or> (\<exists>c s'. atom_match ic a c \<and> match_here ic r s' True (g @ [c]) = Some x)"
  by (cases s) (auto simp: capture_def split: if_splits option.splits)

lemma plus_capture:
  "match_here ic (Rep Plus a # r) s True g = Some x \<Longrightarrow>
     \<exists>c s'. atom_match ic a c \<and> match_here ic (Rep Star a # r) s' True (g @ [c]) = Some x"
  by (cases s) (auto simp: capture_def split: if_splits)

lemma star_capture:
  "match_here ic (Rep Star a # r) s True g = Some x \<Longrightarrow>
     \<exists>cs s'. list_all (atom_match ic a) cs \<and> match_here ic r s' True (g @ cs) = Some x"
proof (induction s arbitrary: g)
  case Nil
  then have "list_all (atom_match ic a) [] \<and> match_here ic r [] True (g @ []) = Some x"
    by simp
  then show ?case by blast
next
  case (Cons c s)
  show ?case
  proof (cases "atom_match ic a c \<and> match_here ic (Rep Star a # r) s True (g @ [c]) = Some x")
    case True
    with Cons.IH [of "g @ [c]"] obtain cs s' where
      "list_all (atom_match ic a) cs" "match_here ic r s' True ((g @ [c]) @ cs) = Some x"
      by blast
    with True have "list_all (atom_match ic a) (c # cs)"
      "match_here ic r s' True (g @ c # cs) = Some x" by simp_all
    then show ?thesis by blast
  next
    case False
    with Cons.prems
    have "list_all (atom_match ic a) [] \<and> match_here ic r (c # s) True (g @ []) = Some x"
      by (auto simp: capture_def split: if_splits option.splits)
    then show ?thesis by blast
  qed
qed

lemma dot_atom: "atom_match ic (Lit CHR ''.'') c \<Longrightarrow> c = CHR ''.''"
  by (auto simp: py_lower_def split: if_splits)

lemma digits_atom: "list_all (atom_match ic Digit) cs = list_all py_isdigit cs"
  by (induction cs) auto

lemma frac_capture:
  assumes "match_here ic (Rep Opt (Lit CHR ''.'') # Rep Star Digit # GClose # post) s True g1
             = Some (g, rest)"
      and "GOpen \<notin> set post" "GClose \<notin> set post"
  shows "\<exists>dot ds. g = g1 @ dot @ ds \<and> dot \<in> {[], ''.''} \<and> list_all py_isdigit ds"
proof -
  have "\<exists>d s1. d \<in> {[], ''.''}
      \<and> match_here ic (Rep Star Digit # GClose # post) s1 True (g1 @ d) = Some (g, rest)"
    using opt_capture [OF assms(1)]
  proof
    assume "\<exists>s'. match_here ic (Rep Star Digit # GClose # post) s' True g1 = Some (g, rest)"
    then obtain s' where
      "match_here ic (Rep Star Digit # GClose # post) s' True (g1 @ []) = Some (g, rest)"
      by auto
    then show ?thesis by blast
  next
    assume "\<exists>c s'. atom_match ic (Lit CHR ''.'') c
        \<and> match_here ic (Rep Star Digit # GClose # post) s' True (g1 @ [c]) = Some (g, rest)"
    then obtain c s' where c: "atom_match ic (Lit CHR ''.'') c"
      and m: "match_here ic (Rep Star Digit # GClose # post) s' True (g1 @ [c]) = Some (g, rest)"
      by blast
    from dot_atom [OF c] m
    have "match_here ic (Rep Star Digit # GClose # post) s' True (g1 @ ''.'') = Some (g, rest)"
      by simp
    then show ?thesis by blast
  qed
  then obtain d s1 where d: "d \<in> {[], ''.''}"
    and m: "match_here ic (Rep Star Digit # GClose # post) s1 True (g1 @ d) = Some (g, rest)"
    by blast
  from star_capture [OF m] obtain cs s2 where cs: "list_all py_isdigit cs"
    and m2: "match_here ic (GClose # post) s2 True ((g1 @ d) @ cs) = Some (g, rest)"
    by (auto simp: digits_atom)
  from m2 have "match_here ic post s2 False ((g1 @ d) @ cs) = Some (g, rest)" by simp
  from match_no_group_keeps [OF this assms(2,3)] have "g = g1 @ d @ cs" by simp
  with d cs show ?thesis by blast
qed

lemma digits_capture:
  assumes "match_here ic (Rep Plus Digit # r) s True g0 = Some x"
  shows "\<exists>ds s'. ds \<noteq> [] \<and> list_all py_isdigit ds \<and> match_here ic r s' True (g0 @ ds) = Some x"
proof -
  from plus_capture [OF assms] obtain c s1 where c: "py_isdigit c"
    and m: "match_here ic (Rep Star Digit # r) s1 True (g0 @ [c]) = Some x"
    by auto
  from star_capture [OF m] obtain cs s2 where cs: "list_all py_isdigit cs"
    and m2: "match_here ic r s2 True ((g0 @ [c]) @ cs) = Some x"
    by (auto simp: digits_atom)
  from c cs m2 have "c # cs \<noteq> []" "list_all py_isdigit (c # cs)"
    "match_here ic r s2 True (g0 @ c # cs) = Some x" by simp_all
  then show ?thesis by blast
qed

lemma unsigned_capture:
  assumes "match_here ic (Rep Plus Digit # Rep Opt (Lit CHR ''.'') # Rep Star Digit # GClose # post)
             s True g0 = Some (g, rest)"
      and "GOpen \<notin> set post" "GClose \<notin> set post"
  shows "\<exists>ds1 dot ds2. g = g0 @ ds1 @ dot @ ds2 \<and> ds1 \<noteq> [] \<and> list_all py_isdigit ds1
           \<and> dot \<in> {[], ''.''} \<and> list_all py_isdigit ds2"
proof -
  from digits_capture [OF assms(1)] obtain ds1 s1 where ds1: "ds1 \<noteq> []" "list_all py_isdigit ds1"
    and m: "match_here ic (Rep Opt (Lit CHR ''.'') # Rep Star Digit # GClose # post) s1 True
              (g0 @ ds1) = Some (g, rest)"
    by blast
  from frac_capture [OF m assms(2,3)] obtain dot ds2 where
    "g = (g0 @ ds1) @ dot @ ds2" "dot \<in> {[], ''.''}" "list_all py_isdigit ds2"
    by blast
  with ds1 show ?thesis by auto
qed

lemma group_numeral:
  assumes "match_here ic (grp @ post) s False g0 = Some (g, rest)"
      and "grp \<in> set [signed_group, unsigned_group, int_group]"
      and "GOpen \<notin> set post" "GClose \<notin> set post"
  shows "numeral_text g"
proof -
  from assms(2) consider "grp = signed_group" | "grp = unsigned_group" | "grp = int_group"
    by auto
  then show ?thesis
  proof cases
    case 1
    with assms(1) have "match_here ic (Rep Opt (OneOf ''+-'') # Rep Plus Digit
        # Rep Opt (Lit CHR ''.'') # Rep Star Digit # GClose # post) s True [] = Some (g, rest)"
      by (simp add: signed_group_def)
    from opt_capture [OF this]
    have "\<exists>sg s1. sg \<in> {[], ''+'', ''-''}
       \<and> match_here ic (Rep Plus Digit # Rep Opt (Lit CHR ''.'') # Rep Star Digit
                # GClose # post) s1 True ([] @ sg) = Some (g, rest)"
    proof
      assume "\<exists>s'. match_here ic (Rep Plus Digit # Rep Opt (Lit CHR ''.'') # Rep Star Digit
                # GClose # post) s' True [] = Some (g, rest)"
      then obtain s' where "match_here ic (Rep Plus Digit # Rep Opt (Lit CHR ''.'')
                # Rep Star Digit # GClose # post) s' True ([] @ []) = Some (g, rest)"
        by auto
      then show ?thesis by blast
    next
      assume "\<exists>c s'. atom_match ic (OneOf ''+-'') c
         \<and> match_here ic (Rep Plus Digit # Rep Opt (Lit CHR ''.'') # Rep Star Digit
                # GClose # post) s' True ([] @ [c]) = Some (g, rest)"
      then obtain c s' where c: "c = CHR ''+'' \<or> c = CHR ''-''"
        and m: "match_here ic (Rep Plus Digit # Rep Opt (Lit CHR ''.'') # Rep Star Digit
                # GClose # post) s' True ([] @ [c]) = Some (g, rest)"
        by auto
      from c have "[c] \<in> {[], ''+'', ''-''}" by auto
      with m show ?thesis by blast
    qed
    then obtain sg s1 where sg: "sg \<in> {[], ''+'', ''-''}"
      and m: "match_here ic (Rep Plus Digit # Rep Opt (Lit CHR ''.'') # Rep Star Digit
                # GClose # post) s1 True ([] @ sg) = Some (g, rest)"
      by blast
    from unsigned_capture [OF m assms(3,4)] sg show ?thesis
      unfolding numeral_text_def by auto
  next
    case 2
    with assms(1) have m: "match_here ic (Rep Plus Digit # Rep Opt (Lit CHR ''.'')
        # Rep Star Digit # GClose # post) s True [] = Some (g, rest)"
      by (simp add: unsigned_group_def)
    from unsigned_capture [OF m assms(3,4)] obtain ds1 dot ds2 where
      "g = [] @ ds1 @ dot @ ds2" "ds1 \<noteq> []" "list_all py_isdigit ds1"
      "dot \<in> {[], ''.''}" "list_all py_isdigit ds2"
      by auto
    moreover have "[] \<in> {[], ''+'', ''-''}" by simp
    ultimately show ?thesis
      unfolding numeral_text_def by blast
  next
    case 3
    with assms(1) have m: "match_here ic (Rep Plus Digit # GClose # post) s True [] = Some (g, rest)"
      by (simp add: int_group_def)
    from digits_capture [OF m] obtain ds s1 where ds: "ds \<noteq> []" "list_all py_isdigit ds"
      and m2: "match_here ic (GClose # post) s1 True ([] @ ds) = Some (g, rest)"
      by blast
    from m2 have "match_here ic post s1 False ds = Some (g, rest)" by simp
    from match_no_group_keeps [OF this assms(3,4)] have "g = ds" by simp
    then have "g = [] @ ds @ [] @ []" by simp
    moreover have "[] \<in> {[], ''+'', ''-''}" "[] \<in> {[], ''.''}" "list_all py_isdigit []"
      by simp_all
    ultimately show ?thesis
      unfolding numeral_text_def using ds by blast
  qed
qed

lemma re_search_SomeD:
  "re_search ic p s = Some g \<Longrightarrow> \<exists>s' rest. match_here ic p s' False [] = Some (g, rest)"
proof (induction s)
  case Nil
  then obtain x where "match_here ic p [] False [] = Some x" "fst x = g"
    by auto
  then have "match_here ic p [] False [] = Some (g, snd x)"
    by (metis prod.collapse)
  then show ?case by blast
next
  case (Cons c s)
  show ?case
  proof (cases "match_here ic p (c # s) False []")
    case None
    with Cons show ?thesis by simp
  next
    case (Some x)
    with Cons.prems have "fst x = g" by simp
    with Some have "match_here ic p (c # s) False [] = Some (g, snd x)"
      by (metis prod.collapse)
    then show ?thesis by blast
  qed
qed

lemma well_grouped_numeral:
  assumes "well_grouped p" and "re_search ic p s = Some g"
  shows "numeral_text g"
proof -
  obtain pre grp post where sp: "group_split p = (pre, grp, post)"
    by (cases "group_split p") auto
  with assms(1) have p: "p = pre @ grp @ post"
    and npre: "GOpen \<notin> set pre" "GClose \<notin> set pre"
    and npost: "GOpen \<notin> set post" "GClose \<notin> set post"
    and grp: "grp \<in> set [signed_group, unsigned_group, int_group]"
    by (simp_all add: well_grouped_def)
  from re_search_SomeD [OF assms(2)] obtain s1 rest where
    "match_here ic p s1 False [] = Some (g, rest)" by blast
  from match_prefix_no_group [OF this p npre] obtain s2 where
    "match_here ic (grp @ post) s2 False [] = Some (g, rest)" by auto
  from group_numeral [OF this grp npost] show ?thesis .
qed

lemma digit_not_sign: "py_isdigit c \<Longrightarrow> c \<noteq> CHR ''-'' \<and> c \<noteq> CHR ''+'' \<and> c \<noteq> CHR ''.''"
  by (auto simp: py_isdigit_def)

lemma unsigned_body:
  assumes "ds1 \<noteq> []" "list_all py_isdigit ds1" "dot \<in> {[], ''.''}" "list_all py_isdigit ds2"
      and "body = ds1 @ dot @ ds2"
  shows "(dropWhile py_isdigit body = [] \<or> hd (dropWhile py_isdigit body) = CHR ''.'')
       \<and> list_all py_isdigit (case dropWhile py_isdigit body of [] \<Rightarrow> []
             | c # r \<Rightarrow> if c = CHR ''.'' then r else dropWhile py_isdigit body)
       \<and> takeWhile py_isdigit body \<noteq> []"
proof (cases "dot = []")
  case True
  with assms have all: "list_all py_isdigit body" by simp
  then have tw: "takeWhile py_isdigit body = body" and dw: "dropWhile py_isdigit body = []"
    by (simp_all add: list_all_iff)
  have "body \<noteq> []" using assms(1,5) by simp
  then show ?thesis unfolding tw dw by simp
next
  case False
  with assms(3) have dot: "dot = ''.''" by simp
  have nd: "\<not> py_isdigit CHR ''.''" by (simp add: py_isdigit_def)
  have tw: "takeWhile py_isdigit body = ds1" and dw: "dropWhile py_isdigit body = CHR ''.'' # ds2"
    using assms(2) nd unfolding assms(5) dot
    by (simp_all add: list_all_iff takeWhile_append2 dropWhile_append2)
  show ?thesis unfolding tw dw using assms(1,4) by simp
qed

lemma py_float_of_body:
  assumes "(case g of [] \<Rightarrow> (False, [])
            | c # r \<Rightarrow> if c = CHR ''-'' then (True, r)
                       else if c = CHR ''+'' then (False, r) else (False, g)) = (neg, body)"
      and "(dropWhile py_isdigit body = [] \<or> hd (dropWhile py_isdigit body) = CHR ''.'')
       \<and> list_all py_isdigit (case dropWhile py_isdigit body of [] \<Rightarrow> []
             | c # r \<Rightarrow> if c = CHR ''.'' then r else dropWhile py_isdigit body)
       \<and> takeWhile py_isdigit body \<noteq> []"
  shows "\<exists>v. py_float g = Inr v"
  unfolding py_float_def assms(1) using assms(2) by (simp add: Let_def)

lemma py_float_numeral_text:
  assumes "numeral_text g"
  shows "\<exists>v. py_float g = Inr v"
proof -
  from assms obtain sign ds1 dot ds2 where g: "g = sign @ ds1 @ dot @ ds2"
    and sign: "sign \<in> {[], ''+'', ''-''}"
    and ds: "ds1 \<noteq> []" "list_all py_isdigit ds1" "dot \<in> {[], ''.''}" "list_all py_isdigit ds2"
    unfolding numeral_text_def by blast
  let ?body = "ds1 @ dot @ ds2"
  note ub = unsigned_body [OF ds refl]
  from ds(1,2) obtain d dr where d: "ds1 = d # dr" "py_isdigit d"
    by (cases ds1) auto
  from sign consider "sign = []" | "sign = ''+''" | "sign = ''-''" by auto
  then obtain neg where
    "(case g of [] \<Rightarrow> (False, [])
       | c # r \<Rightarrow> if c = CHR ''-'' then (True, r)
                  else if c = CHR ''+'' then (False, r) else (False, g)) = (neg, ?body)"
  proof cases
    case 1
    have "d \<noteq> CHR ''-''" "d \<noteq> CHR ''+''" using d(2) digit_not_sign by auto
    with 1 g d(1) have "(case g of [] \<Rightarrow> (False, [])
       | c # r \<Rightarrow> if c = CHR ''-'' then (True, r)
                  else if c = CHR ''+'' then (False, r) else (False, g)) = (False, ?body)"
      by simp
    with that show ?thesis by blast
  next
    case 2
    with g have "(case g of [] \<Rightarrow> (False, [])
       | c # r \<Rightarrow> if c = CHR ''-'' then (True, r)
                  else if c = CHR ''+'' then (False, r) else (False, g)) = (False, ?body)"
      by simp
    with that show ?thesis by blast
  next
    case 3
    with g have "(case g of [] \<Rightarrow> (False, [])
       | c # r \<Rightarrow> if c = CHR ''-'' then (True, r)
                  else if c = CHR ''+'' then (False, r) else (False, g)) = (True, ?body)"
      by simp
    with that show ?thesis by blast
  qed
  from py_float_of_body [OF this ub] show ?thesis .
qed

lemma patterns_well_grouped:
  "list_all (\<lambda>(name, ps). list_all well_grouped ps) patterns"
  by (simp add: patterns_def well_grouped_def group_split_def lit_def
        signed_group_def unsigned_group_def int_group_def)

lemma table_groups_convert:
  assumes "(name, ps) \<in> set patterns" "p \<in> set ps" "re_search ic p output = Some g"
  shows "\<exists>v. py_float g = Inr v"
proof -
  from patterns_well_grouped assms(1,2) have "well_grouped p"
    by (auto simp: list_all_iff)
  from py_float_numeral_text [OF well_grouped_numeral [OF this assms(3)]] show ?thesis .
qed

text \<open>
  C4. \<open>_parse_backtest_output\<close> is total on texts: the conversion \<open>float\<close>, its only
  raising call, sits under the bare \<open>except\<close> (the \<open>Inl\<close> branch of \<open>try_patterns\<close>); every
  pattern has the group that \<open>match.group(1)\<close> reads, and whatever that group captures
  converts. On the empty text the result is empty. On any text the keys of the result
  are distinct and are exactly the metrics with a pattern that matched and converted,
  and every value reported is the one its pattern list produced; a metric without such
  a pattern has no entry, not a zero.
\<close>

theorem parse_backtest_output_exact:
  "parse_backtest_output [] = []
   \<and> (\<forall>(name, ps) \<in> set patterns. \<forall>p \<in> set ps. GOpen \<in> set p \<and> GClose \<in> set p)
   \<and> (\<forall>(name, ps) \<in> set patterns. \<forall>p \<in> set ps. \<forall>g.
         re_search True p output = Some g \<longrightarrow> (\<exists>v. py_float g = Inr v))
   \<and> distinct (map fst (parse_backtest_output output))
   \<and> (\<forall>name. (name \<in> fst ` set (parse_backtest_output output)) =
         (\<exists>ps p. (name, ps) \<in> set patterns \<and> p \<in> set ps \<and> pattern_hit p output))
   \<and> (\<forall>name v. (name, v) \<in> set (parse_backtest_output output) \<longrightarrow>
         (\<exists>ps. (name, ps) \<in> set patterns \<and> try_patterns ps output = Some v))"
proof -
  have conv: "\<forall>(name, ps) \<in> set patterns. \<forall>p \<in> set ps. \<forall>g.
         re_search True p output = Some g \<longrightarrow> (\<exists>v. py_float g = Inr v)"
    using table_groups_convert by blast
  from parse_empty patterns_have_group conv distinct_parse_backtest_output
    key_in_parse value_in_parse
  show ?thesis by blast
qed

theorem parse_backtest_output_exact_witness:
  "(''sharpe'', 37 / 20) \<in> set (parse_backtest_output scenario_d)
   \<and> (\<exists>ps. (''sharpe'', ps) \<in> set patterns \<and> try_patterns ps scenario_d = Some (37 / 20))
   \<and> ''trades'' \<notin> fst ` set (parse_backtest_output scenario_d)
   \<and> \<not> (\<exists>ps p. (''trades'', ps) \<in> set patterns \<and> p \<in> set ps \<and> pattern_hit p scenario_d)"
proof -
  have a: "(''sharpe'', 37 / 20) \<in> set (parse_backtest_output scenario_d)"
    by (simp add: parse_scenario_d)
  have b: "''trades'' \<notin> fst ` set (parse_backtest_output scenario_d)"
    by (simp add: parse_scenario_d)
  from a b parse_backtest_output_exact [of scenario_d] show ?thesis
    by blast
qed

text \<open>
  C5. The table has the five metric names. For each of them the search is
  case-insensitive (\<open>re_search True\<close>), and the first pattern of the list that matches
  with a group that converts gives the value, whatever patterns follow it. On the two
  lines of Scenario D the result maps \<open>sharpe\<close> to 1.85 and \<open>return\<close> to 12.40 and has no
  other key; the lower-case text gives the same.
\<close>

theorem first_matching_pattern_wins:
  "map fst patterns = [''return'', ''sharpe'', ''max_drawdown'', ''trades'', ''win_rate'']
   \<and> ((name, pre @ p # post) \<in> set patterns \<longrightarrow> (\<forall>q \<in> set pre. \<not> pattern_hit q output)
        \<longrightarrow> re_search True p output = Some g \<longrightarrow> py_float g = Inr v
        \<longrightarrow> map_of (parse_backtest_output output) name = Some v)
   \<and> parse_backtest_output (''Sharpe Ratio    1.85'' @ [CHR 0x0A] @ ''Return [%]   12.40'')
        = [(''return'', 62 / 5), (''sharpe'', 37 / 20)]
   \<and> parse_backtest_output (''sharpe ratio    1.85'' @ [CHR 0x0A] @ ''return [%]   12.40'')
        = [(''return'', 62 / 5), (''sharpe'', 37 / 20)]"
proof -
  have names: "map fst patterns = [''return'', ''sharpe'', ''max_drawdown'', ''trades'', ''win_rate'']"
    by (simp add: patterns_def)
  have first: "map_of (parse_backtest_output output) name = Some v"
    if "(name, pre @ p # post) \<in> set patterns" "\<forall>q \<in> set pre. \<not> pattern_hit q output"
       "re_search True p output = Some g" "py_float g = Inr v"
  proof -
    from that(1) have "map_of patterns name = Some (pre @ p # post)"
      using patterns_distinct by simp
    then show ?thesis
      using try_patterns_first [OF that(2) that(3) that(4)]
      by (simp add: map_of_parse_backtest_output)
  qed
  have upper: "parse_backtest_output (''Sharpe Ratio    1.85'' @ [CHR 0x0A] @ ''Return [%]   12.40'')
        = [(''return'', 62 / 5), (''sharpe'', 37 / 20)]"
    by code_simp
  have lower: "parse_backtest_output (''sharpe ratio    1.85'' @ [CHR 0x0A] @ ''return [%]   12.40'')
        = [(''return'', 62 / 5), (''sharpe'', 37 / 20)]"
    by code_simp
  from names first upper lower show ?thesis by blast
qed

theorem first_matching_pattern_wins_witness:
  "(''sharpe'', [] @ (lit ''Sharpe Ratio'' @ [Rep Star Space] @ signed_group)
       # [lit ''Sharpe'' @ [Rep Star Space] @ signed_group]) \<in> set patterns
   \<and> re_search True (lit ''Sharpe Ratio'' @ [Rep Star Space] @ signed_group) scenario_d = Some ''1.85''
   \<and> py_float ''1.85'' = Inr (37 / 20)
   \<and> map_of (parse_backtest_output scenario_d) ''sharpe'' = Some (37 / 20)"
proof -
  have h1: "(''sharpe'', [] @ (lit ''Sharpe Ratio'' @ [Rep Star Space] @ signed_group)
       # [lit ''Sharpe'' @ [Rep Star Space] @ signed_group]) \<in> set patterns"
    by (simp add: patterns_def)
  have h2: "\<forall>q \<in> set []. \<not> pattern_hit q scenario_d"
    by simp
  have h3: "re_search True (lit ''Sharpe Ratio'' @ [Rep Star Space] @ signed_group) scenario_d
              = Some ''1.85''"
    by code_simp
  have h4: "py_float ''1.85'' = Inr (37 / 20)"
    by code_simp
  from h1 h2 h3 h4
    first_matching_pattern_wins [of "''sharpe''" "[]"
      "lit ''Sharpe Ratio'' @ [Rep Star Space] @ signed_group"
      "[lit ''Sharpe'' @ [Rep Star Space] @ signed_group]" scenario_d "''1.85''" "37 / 20"]
  show ?thesis by blast
qed

section \<open>Properties of the worker\<close>

lemma failing_run:
  "test_strategy_on_asset demo_tester failing_env ''/s/strat.py'' ''BTCUSDT'' ''/d/BTCUSDT.csv'' ''/tmp/m''
   = Inr \<lparr>res_strategy = ''strat'', res_asset = ''BTCUSDT'', res_data_path = ''/d/BTCUSDT.csv'',
          res_status = ''failed'', res_error = Some ''division by zero'', res_metrics = [],
          res_execution_time = 2, res_timestamp = ''2025-01-01T00:00:00'',
          res_stdout = None, res_stderr = Some ''Traceback''\<rparr>"
  by code_simp

lemma slow_run:
  "test_strategy_on_asset demo_tester slow_env ''/s/strat.py'' ''BTCUSDT'' ''/d/BTCUSDT.csv'' ''/tmp/m''
   = Inr \<lparr>res_strategy = ''strat'', res_asset = ''BTCUSDT'', res_data_path = ''/d/BTCUSDT.csv'',
          res_status = ''success'', res_error = None,
          res_metrics = [(''return'', 62 / 5), (''sharpe'', 37 / 20)],
          res_execution_time = 1000, res_timestamp = ''2025-01-01T00:00:00'',
          res_stdout = Some scenario_d, res_stderr = Some []\<rparr>"
  by code_simp

lemma raising_run:
  "test_strategy_on_asset demo_tester raising_env ''/s/strat.py'' ''BTCUSDT'' ''/d/BTCUSDT.csv'' ''/tmp/m''
   = Inr \<lparr>res_strategy = ''strat'', res_asset = ''BTCUSDT'', res_data_path = ''/d/BTCUSDT.csv'',
          res_status = ''error'', res_error = Some ''TimeoutExpired'', res_metrics = [],
          res_execution_time = 1000, res_timestamp = ''2025-01-01T00:00:00'',
          res_stdout = None, res_stderr = None\<rparr>"
  by code_simp

lemma demo_variant:
  "create_strategy_variant (template_esc slow_env) (fs slow_env) ''/s/strat.py'' ''BTCUSDT''
      ''/d/BTCUSDT.csv'' ''/tmp/m''
   = Inr (''/tmp/m/strat_BTCUSDT.py'',
          demo_fs\<lparr>files := (files demo_fs)(''/tmp/m/strat_BTCUSDT.py'' \<mapsto>
             ''import os'' @ [CHR 0x0A, CHR 0x0A]
               @ ''# Data path for BTCUSDT (injected by Multi-Asset Tester)'' @ [CHR 0x0A]
               @ ''data_path = '' @ [CHR 0x22] @ ''/d/BTCUSDT.csv'' @ [CHR 0x22]
               @ [CHR 0x0A, CHR 0x0A] @ ''x = 1'')\<rparr>)"
  by (simp add: create_strategy_variant_def slow_env_def demo_fs_def Let_def path_join_def
        new_filename_def path_stem_def path_name_def name_stem_def py_rfind_def
        variant_code_def patterns_to_replace_def lit_def quote_def inject_data_path_def
        is_header_line_def py_startswith_def list_insert_def py_isspace_def)

lemma try_body_status:
  "try_body self env result sp a dp td = Inr r \<Longrightarrow>
     res_status r = ''success'' \<or> (res_status r = ''failed'' \<and> res_metrics r = res_metrics result)"
  by (auto simp: try_body_def Let_def split: sum.splits prod.splits if_splits)

lemma test_strategy_on_asset_cases:
  "test_strategy_on_asset self env sp a dp td = Inr r \<Longrightarrow>
     res_status r = ''success'' \<or> (res_status r = ''failed'' \<and> res_metrics r = [])
       \<or> (res_status r = ''error'' \<and> res_metrics r = [])"
  unfolding test_strategy_on_asset_def Let_def
  by (auto split: sum.splits exn.splits dest!: try_body_status)

text \<open>
  C3. A result returned by \<open>test_strategy_on_asset\<close> whose status is not \<open>success\<close> has
  the empty metrics mapping: the metrics are assigned on the success path only, after
  the status.
\<close>

theorem non_success_has_empty_metrics:
  "test_strategy_on_asset self env strategy_path asset data_path temp_dir = Inr r
   \<Longrightarrow> res_status r \<noteq> ''success'' \<Longrightarrow> res_metrics r = []"
  using test_strategy_on_asset_cases by blast

theorem non_success_has_empty_metrics_witness:
  "res_status \<lparr>res_strategy = ''strat'', res_asset = ''BTCUSDT'', res_data_path = ''/d/BTCUSDT.csv'',
          res_status = ''failed'', res_error = Some ''division by zero'', res_metrics = [],
          res_execution_time = 2, res_timestamp = ''2025-01-01T00:00:00'',
          res_stdout = None, res_stderr = Some ''Traceback''\<rparr> \<noteq> ''success''
   \<and> res_metrics \<lparr>res_strategy = ''strat'', res_asset = ''BTCUSDT'', res_data_path = ''/d/BTCUSDT.csv'',
          res_status = ''failed'', res_error = Some ''division by zero'', res_metrics = [],
          res_execution_time = 2, res_timestamp = ''2025-01-01T00:00:00'',
          res_stdout = None, res_stderr = Some ''Traceback''\<rparr> = []"
proof -
  have ns: "res_status \<lparr>res_strategy = ''strat'', res_asset = ''BTCUSDT'', res_data_path = ''/d/BTCUSDT.csv'',
          res_status = ''failed'', res_error = Some ''division by zero'', res_metrics = [],
          res_execution_time = 2, res_timestamp = ''2025-01-01T00:00:00'',
          res_stdout = None, res_stderr = Some ''Traceback''\<rparr> \<noteq> ''success''"
    by simp
  from non_success_has_empty_metrics [OF failing_run ns] ns show ?thesis
    by (rule_tac conjI)
qed

text \<open>
  C10. A result returned by \<open>test_strategy_on_asset\<close> has the status \<open>success\<close>,
  \<open>failed\<close> or \<open>error\<close>; the initial \<open>unknown\<close> and the value \<open>timeout\<close> never leave the
  function.
\<close>

theorem status_is_success_failed_or_error:
  "test_strategy_on_asset self env strategy_path asset data_path temp_dir = Inr r
   \<Longrightarrow> res_status r \<in> {''success'', ''failed'', ''error''}
       \<and> res_status r \<noteq> ''unknown'' \<and> res_status r \<noteq> ''timeout''"
  using test_strategy_on_asset_cases [of self env strategy_path asset data_path temp_dir r]
  by auto

theorem status_is_success_failed_or_error_witness:
  "test_strategy_on_asset demo_tester raising_env ''/s/strat.py'' ''BTCUSDT'' ''/d/BTCUSDT.csv'' ''/tmp/m''
     = Inr \<lparr>res_strategy = ''strat'', res_asset = ''BTCUSDT'', res_data_path = ''/d/BTCUSDT.csv'',
          res_status = ''error'', res_error = Some ''TimeoutExpired'', res_metrics = [],
          res_execution_time = 1000, res_timestamp = ''2025-01-01T00:00:00'',
          res_stdout = None, res_stderr = None\<rparr>
   \<and> ''error'' \<in> {''success'', ''failed'', ''error''}
   \<and> ''error'' \<noteq> ''unknown'' \<and> ''error'' \<noteq> ''timeout''"
  using status_is_success_failed_or_error [OF raising_run] raising_run
  by simp

section \<open>Properties of the variant generator\<close>

lemma py_split_not_Nil: "py_split d s \<noteq> []"
  by (induction s) (auto split: list.splits)

lemma py_split_no_sep: "w \<in> set (py_split d s) \<Longrightarrow> d \<notin> set w"
proof (induction s arbitrary: w)
  case Nil
  then show ?case by simp
next
  case (Cons c s)
  show ?case
  proof (cases "c = d")
    case True
    with Cons show ?thesis by auto
  next
    case False
    obtain x xs where sp: "py_split d s = x # xs"
      using py_split_not_Nil [of d s] by (cases "py_split d s") auto
    with False Cons.prems have "w = c # x \<or> w \<in> set xs" by simp
    with Cons.IH sp False show ?thesis by auto
  qed
qed

lemma py_split_single: "d \<notin> set s \<Longrightarrow> py_split d s = [s]"
  by (induction s) auto

lemma py_split_append: "py_split d (a @ d # b) = py_split d a @ py_split d b"
proof (induction a)
  case Nil
  then show ?case by simp
next
  case (Cons c a)
  obtain x xs where sp: "py_split d a = x # xs"
    using py_split_not_Nil [of d a] by (cases "py_split d a") auto
  with Cons show ?case by simp
qed

lemma path_name_join:
  assumes "CHR ''/'' \<notin> set n" "n \<noteq> []" "n \<noteq> ''.''"
  shows "path_name (path_join d n) = n"
proof -
  have "py_split CHR ''/'' (path_join d n) = py_split CHR ''/'' d @ [n]"
    using assms(1) by (simp add: path_join_def py_split_append py_split_single)
  then have "filter (\<lambda>c. c \<noteq> [] \<and> c \<noteq> ''.'') (py_split CHR ''/'' (path_join d n))
               = filter (\<lambda>c. c \<noteq> [] \<and> c \<noteq> ''.'') (py_split CHR ''/'' d) @ [n]"
    using assms(2,3) by simp
  moreover have "(case xs of [] \<Rightarrow> [] | c # cs \<Rightarrow> last (c # cs)) = (if xs = [] then [] else last xs)"
    for xs :: "string list"
    by (cases xs) simp_all
  ultimately show ?thesis
    by (simp add: path_name_def)
qed

lemma path_name_no_slash: "CHR ''/'' \<notin> set (path_name p)"
proof -
  let ?cs = "filter (\<lambda>c. c \<noteq> [] \<and> c \<noteq> ''.'') (py_split CHR ''/'' p)"
  show ?thesis
  proof (cases ?cs)
    case Nil
    then show ?thesis by (simp add: path_name_def)
  next
    case (Cons c cs)
    then have "path_name p = last ?cs" by (simp add: path_name_def)
    moreover have "last ?cs \<in> set ?cs" using Cons by (intro last_in_set) simp
    ultimately have "path_name p \<in> set (py_split CHR ''/'' p)" by auto
    then show ?thesis by (rule py_split_no_sep)
  qed
qed

lemma path_stem_no_slash: "CHR ''/'' \<notin> set (path_stem p)"
  using path_name_no_slash [of p]
  by (auto simp: path_stem_def name_stem_def Let_def dest: in_set_takeD)

lemma py_rfind_dot_py: "py_rfind CHR ''.'' (s @ ''.py'') = int (length s)"
  by (simp add: py_rfind_def)

lemma name_suffix_dot_py: "s \<noteq> [] \<Longrightarrow> name_suffix (s @ ''.py'') = ''.py''"
  by (simp add: name_suffix_def py_rfind_dot_py)

text \<open>
  C9 as stated (the variant keeps the extension of the source) does not hold: the
  variant of a source \<open>strat.txt\<close> for the asset \<open>BTCUSDT\<close> is \<open>strat_BTCUSDT.py\<close>.
\<close>

theorem variant_extension_counterexample:
  "create_strategy_variant no_escapes (demo_fs\<lparr>files := [''/s/strat.txt'' \<mapsto> ''x = 1'']\<rparr>)
      ''/s/strat.txt'' ''BTCUSDT'' ''/d/BTCUSDT.csv'' ''/tmp/m''
     = Inr (''/tmp/m/strat_BTCUSDT.py'',
            demo_fs\<lparr>files := [''/s/strat.txt'' \<mapsto> ''x = 1'',
               ''/tmp/m/strat_BTCUSDT.py'' \<mapsto>
                 [CHR 0x0A] @ ''# Data path for BTCUSDT (injected by Multi-Asset Tester)''
                   @ [CHR 0x0A] @ ''data_path = '' @ [CHR 0x22] @ ''/d/BTCUSDT.csv'' @ [CHR 0x22]
                   @ [CHR 0x0A, CHR 0x0A] @ ''x = 1'']\<rparr>)
   \<and> path_suffix ''/s/strat.txt'' = ''.txt''
   \<and> path_name ''/tmp/m/strat_BTCUSDT.py'' = ''strat_BTCUSDT.py''
   \<and> path_suffix ''/tmp/m/strat_BTCUSDT.py'' = ''.py''
   \<and> path_name ''/tmp/m/strat_BTCUSDT.py''
        \<noteq> path_stem ''/s/strat.txt'' @ ''_'' @ ''BTCUSDT'' @ path_suffix ''/s/strat.txt''"
  by (simp add: create_strategy_variant_def demo_fs_def Let_def path_join_def
        new_filename_def path_stem_def path_suffix_def path_name_def name_stem_def
        name_suffix_def py_rfind_def
        variant_code_def patterns_to_replace_def lit_def quote_def inject_data_path_def
        is_header_line_def py_startswith_def list_insert_def py_isspace_def)

text \<open>
  C9, as the code has it. The file name of the variant is the stem of the source
  path, an underscore, the asset symbol and the fixed extension \<open>.py\<close>, for every source
  path and every asset symbol without a slash (a symbol is the stem of a file name). The
  extension is that of the source exactly when the source's is \<open>.py\<close>.
\<close>

theorem variant_filename:
  assumes "create_strategy_variant esc fs0 strategy_path asset data_file_path temp_dir = Inr (p, fs')"
      and "CHR ''/'' \<notin> set asset"
  shows "path_name p = path_stem strategy_path @ ''_'' @ asset @ ''.py''
       \<and> path_suffix p = ''.py''
       \<and> (path_name p = path_stem strategy_path @ ''_'' @ asset @ path_suffix strategy_path)
           = (path_suffix strategy_path = ''.py'')"
proof -
  from assms(1) have p: "p = path_join temp_dir (new_filename strategy_path asset)"
    by (auto simp: create_strategy_variant_def Let_def split: if_splits option.splits sum.splits)
  have ns: "CHR ''/'' \<notin> set (new_filename strategy_path asset)"
    using assms(2) path_stem_no_slash [of strategy_path] by (simp add: new_filename_def)
  have ne: "new_filename strategy_path asset \<noteq> []" "new_filename strategy_path asset \<noteq> ''.''"
    by (auto simp: new_filename_def Cons_eq_append_conv append_eq_Cons_conv)
  have n: "path_name p = new_filename strategy_path asset"
    unfolding p using ns ne by (rule path_name_join)
  have "name_suffix ((path_stem strategy_path @ ''_'' @ asset) @ ''.py'') = ''.py''"
    by (rule name_suffix_dot_py) simp
  then have s: "path_suffix p = ''.py''"
    by (simp add: path_suffix_def n new_filename_def)
  from n s show ?thesis by (auto simp: new_filename_def)
qed

theorem variant_filename_witness:
  "create_strategy_variant (template_esc slow_env) (fs slow_env) ''/s/strat.py'' ''BTCUSDT''
      ''/d/BTCUSDT.csv'' ''/tmp/m''
   = Inr (''/tmp/m/strat_BTCUSDT.py'',
          demo_fs\<lparr>files := (files demo_fs)(''/tmp/m/strat_BTCUSDT.py'' \<mapsto>
             ''import os'' @ [CHR 0x0A, CHR 0x0A]
               @ ''# Data path for BTCUSDT (injected by Multi-Asset Tester)'' @ [CHR 0x0A]
               @ ''data_path = '' @ [CHR 0x22] @ ''/d/BTCUSDT.csv'' @ [CHR 0x22]
               @ [CHR 0x0A, CHR 0x0A] @ ''x = 1'')\<rparr>)
   \<and> CHR ''/'' \<notin> set ''BTCUSDT''
   \<and> path_suffix ''/s/strat.py'' = ''.py''
   \<and> path_name ''/tmp/m/strat_BTCUSDT.py'' = ''strat_BTCUSDT.py''
   \<and> path_suffix ''/tmp/m/strat_BTCUSDT.py'' = ''.py''"
proof -
  have a: "CHR ''/'' \<notin> set ''BTCUSDT''" by simp
  have st: "path_stem ''/s/strat.py'' = ''strat''" "path_suffix ''/s/strat.py'' = ''.py''"
    by (simp_all add: path_stem_def path_suffix_def path_name_def name_stem_def name_suffix_def
          py_rfind_def)
  from variant_filename [OF demo_variant a] st demo_variant a show ?thesis
    by simp
qed

lemma replace_loop_no_match:
  "\<forall>(pattern, replacement) \<in> set rules. re_search False pattern code = None
   \<Longrightarrow> replace_loop esc rules code flag = Inr (code, flag)"
  by (induction rules) auto

lemma find_import_end_takeWhile:
  "find_import_end ls i idx =
     (if takeWhile is_header_line ls = [] then idx else i + length (takeWhile is_header_line ls))"
  by (induction ls arbitrary: i idx) auto

lemma find_import_end_length:
  "find_import_end ls 0 0 = length (takeWhile is_header_line ls)"
  by (simp add: find_import_end_takeWhile)

lemma three_inserts:
  "k \<le> length ls \<Longrightarrow>
   list_insert (k + 2) c (list_insert (k + 1) b (list_insert k a ls))
     = take k ls @ [a, b, c] @ drop k ls"
  by (simp add: list_insert_def min_def)

lemma py_join_Cons: "py_join d (x # xs) = (if xs = [] then x else x @ d # py_join d xs)"
  by (cases xs) simp_all

lemma py_join_leading_sep:
  "py_join d (xs @ (d # y) # zs) = py_join d (xs @ [] # y # zs)"
  by (induction xs) (simp_all add: py_join_Cons)

lemma py_split_join:
  "xs \<noteq> [] \<Longrightarrow> \<forall>x \<in> set xs. d \<notin> set x \<Longrightarrow> py_split d (py_join d xs) = xs"
proof (induction xs)
  case Nil
  then show ?case by simp
next
  case (Cons x xs)
  show ?case
  proof (cases "xs = []")
    case True
    with Cons.prems show ?thesis by (simp add: py_split_single)
  next
    case False
    with Cons have "py_split d (py_join d xs) = xs" by simp
    with False Cons.prems show ?thesis
      by (simp add: py_join_Cons py_split_append py_split_single)
  qed
qed

lemma inject_data_path_lines:
  "inject_data_path code asset data_file_path =
     py_join CHR 0x0A
       (take (length (takeWhile is_header_line (py_split CHR 0x0A code))) (py_split CHR 0x0A code)
        @ [[], ''# Data path for '' @ asset @ '' (injected by Multi-Asset Tester)'',
           ''data_path = '' @ [CHR 0x22] @ data_file_path @ [CHR 0x22], []]
        @ drop (length (takeWhile is_header_line (py_split CHR 0x0A code))) (py_split CHR 0x0A code))"
proof -
  let ?ls = "py_split CHR 0x0A code"
  let ?k = "length (takeWhile is_header_line ?ls)"
  have k: "?k \<le> length ?ls" by (rule length_takeWhile_le)
  have "inject_data_path code asset data_file_path =
          py_join CHR 0x0A (take ?k ?ls
            @ [CHR 0x0A # ''# Data path for '' @ asset @ '' (injected by Multi-Asset Tester)'',
               ''data_path = '' @ [CHR 0x22] @ data_file_path @ [CHR 0x22], []]
            @ drop ?k ?ls)"
    unfolding inject_data_path_def Let_def find_import_end_length
    using three_inserts [OF k] by simp
  then show ?thesis
    using py_join_leading_sep [of "CHR 0x0A" "take ?k ?ls"] by simp
qed

lemma variant_code_injects:
  "\<forall>(pattern, replacement) \<in> set (patterns_to_replace data_file_path).
      re_search False pattern code = None
   \<Longrightarrow> variant_code esc code asset data_file_path = Inr (inject_data_path code asset data_file_path)"
  by (simp add: variant_code_def replace_loop_no_match)

lemma header_comment: "is_header_line (''# Data path for '' @ asset @ '' (injected by Multi-Asset Tester)'')"
  by (simp add: is_header_line_def py_startswith_def)

lemma header_blank: "is_header_line []"
  by (simp add: is_header_line_def)

text \<open>
  C6. When no rewrite rule matches the source text, the variant written is the source
  with four lines inserted after its leading header block (the longest prefix of lines
  that are blank, start with \<open>#\<close>, \<open>import \<close> or \<open>from \<close>): a blank line, a comment naming the
  asset, the declaration \<open>data_path = "<dataPath>"\<close> and a blank line. The lines before
  the declaration are the header lines and the two inserted header-style lines, so the
  declaration, itself no header line, comes right after the header block of the
  variant; the line after the inserted block is the first non-header line of the
  source, and all source lines are kept in order.
\<close>

theorem injection_after_header:
  assumes "\<forall>(pattern, replacement) \<in> set (patterns_to_replace data_file_path).
             re_search False pattern code = None"
      and "files fs0 strategy_path = Some code" and "writable fs0 temp_dir"
      and "ls = py_split CHR 0x0A code" and "k = length (takeWhile is_header_line ls)"
      and "comment = ''# Data path for '' @ asset @ '' (injected by Multi-Asset Tester)''"
      and "decl = ''data_path = '' @ [CHR 0x22] @ data_file_path @ [CHR 0x22]"
  shows "(\<exists>p fs'. create_strategy_variant esc fs0 strategy_path asset data_file_path temp_dir
                     = Inr (p, fs')
            \<and> files fs' p = Some (py_join CHR 0x0A (take k ls @ [[], comment, decl, []] @ drop k ls))
            \<and> (CHR 0x0A \<notin> set asset \<and> CHR 0x0A \<notin> set data_file_path \<longrightarrow>
                 map_option (py_split CHR 0x0A) (files fs' p)
                   = Some (take k ls @ [[], comment, decl, []] @ drop k ls)))
       \<and> k \<le> length ls \<and> take k ls @ drop k ls = ls
       \<and> (\<forall>l \<in> set (take k ls). is_header_line l)
       \<and> is_header_line [] \<and> is_header_line comment \<and> \<not> is_header_line decl
       \<and> (k < length ls \<longrightarrow> \<not> is_header_line (ls ! k))"
proof -
  let ?v = "py_join CHR 0x0A (take k ls @ [[], comment, decl, []] @ drop k ls)"
  have nd: "\<not> is_header_line decl"
    by (simp add: assms(7) is_header_line_def py_startswith_def py_isspace_def)
  have vc: "variant_code esc code asset data_file_path = Inr ?v"
    using variant_code_injects [OF assms(1)] inject_data_path_lines [of code asset data_file_path]
    by (simp add: assms(4-7))
  have cr: "create_strategy_variant esc fs0 strategy_path asset data_file_path temp_dir
        = Inr (path_join temp_dir (new_filename strategy_path asset),
               fs0\<lparr>files := (files fs0)(path_join temp_dir (new_filename strategy_path asset) \<mapsto> ?v)\<rparr>)"
    using assms(2,3) vc by (simp add: create_strategy_variant_def Let_def)
  have no_nl: "\<forall>x \<in> set (take k ls @ [[], comment, decl, []] @ drop k ls). CHR 0x0A \<notin> set x"
    if "CHR 0x0A \<notin> set asset" "CHR 0x0A \<notin> set data_file_path"
  proof
    fix x
    assume "x \<in> set (take k ls @ [[], comment, decl, []] @ drop k ls)"
    then consider "x \<in> set (take k ls)" | "x \<in> set (drop k ls)" | "x = []" | "x = comment" | "x = decl"
      by auto
    then show "CHR 0x0A \<notin> set x"
    proof cases
      case 1
      then have "x \<in> set ls" by (rule in_set_takeD)
      then show ?thesis unfolding assms(4) by (rule py_split_no_sep)
    next
      case 2
      then have "x \<in> set ls" by (rule in_set_dropD)
      then show ?thesis unfolding assms(4) by (rule py_split_no_sep)
    next
      case 3
      then show ?thesis by simp
    next
      case 4
      with that show ?thesis by (simp add: assms(6))
    next
      case 5
      with that show ?thesis by (simp add: assms(7))
    qed
  qed
  have sp: "py_split CHR 0x0A ?v = take k ls @ [[], comment, decl, []] @ drop k ls"
    if "CHR 0x0A \<notin> set asset" "CHR 0x0A \<notin> set data_file_path"
    by (rule py_split_join) (use no_nl [OF that] in simp_all)
  have first: "\<exists>p fs'. create_strategy_variant esc fs0 strategy_path asset data_file_path temp_dir
                     = Inr (p, fs')
            \<and> files fs' p = Some ?v
            \<and> (CHR 0x0A \<notin> set asset \<and> CHR 0x0A \<notin> set data_file_path \<longrightarrow>
                 map_option (py_split CHR 0x0A) (files fs' p)
                   = Some (take k ls @ [[], comment, decl, []] @ drop k ls))"
    using cr sp by simp
  have k: "k \<le> length ls" unfolding assms(5) by (rule length_takeWhile_le)
  have hdr: "\<forall>l \<in> set (take k ls). is_header_line l"
    unfolding assms(5) by (simp add: takeWhile_eq_take [symmetric]) (meson set_takeWhileD)
  have stop: "\<not> is_header_line (ls ! k)" if "k < length ls"
    using that unfolding assms(5) by (rule nth_length_takeWhile)
  from first k hdr stop nd header_blank header_comment [of asset] show ?thesis
    by (simp add: assms(6))
qed

theorem injection_after_header_witness:
  "list_all (\<lambda>(pattern, replacement).
        re_search False pattern (''import os'' @ [CHR 0x0A] @ ''x = 1'') = None)
      (patterns_to_replace ''/d/BTCUSDT.csv'')
   \<and> files demo_fs ''/s/strat.py'' = Some (''import os'' @ [CHR 0x0A] @ ''x = 1'')
   \<and> writable demo_fs ''/tmp/m''
   \<and> py_split CHR 0x0A (''import os'' @ [CHR 0x0A] @ ''x = 1'') = [''import os'', ''x = 1'']
   \<and> length (takeWhile is_header_line [''import os'', ''x = 1'']) = 1
   \<and> (\<exists>p fs'. create_strategy_variant no_escapes demo_fs ''/s/strat.py'' ''BTCUSDT''
                   ''/d/BTCUSDT.csv'' ''/tmp/m'' = Inr (p, fs')
          \<and> map_option (py_split CHR 0x0A) (files fs' p)
              = Some [''import os'', [], ''# Data path for BTCUSDT (injected by Multi-Asset Tester)'',
                      ''data_path = '' @ [CHR 0x22] @ ''/d/BTCUSDT.csv'' @ [CHR 0x22], [], ''x = 1''])
   \<and> \<not> is_header_line ''x = 1''"
proof -
  have h1: "list_all (\<lambda>(pattern, replacement).
        re_search False pattern (''import os'' @ [CHR 0x0A] @ ''x = 1'') = None)
      (patterns_to_replace ''/d/BTCUSDT.csv'')"
    by (simp add: patterns_to_replace_def lit_def quote_def)
  then have h1': "\<forall>(pattern, replacement) \<in> set (patterns_to_replace ''/d/BTCUSDT.csv'').
        re_search False pattern (''import os'' @ [CHR 0x0A] @ ''x = 1'') = None"
    by (simp add: list_all_iff)
  have h2: "files demo_fs ''/s/strat.py'' = Some (''import os'' @ [CHR 0x0A] @ ''x = 1'')"
    by (simp add: demo_fs_def)
  have h3: "writable demo_fs ''/tmp/m''"
    by (simp add: demo_fs_def)
  have h4: "py_split CHR 0x0A (''import os'' @ [CHR 0x0A] @ ''x = 1'') = [''import os'', ''x = 1'']"
    by simp
  have h5: "length (takeWhile is_header_line [''import os'', ''x = 1'']) = 1"
    by (simp add: is_header_line_def py_startswith_def py_isspace_def)
  have a: "CHR 0x0A \<notin> set ''BTCUSDT''" "CHR 0x0A \<notin> set ''/d/BTCUSDT.csv''"
    by simp_all
  note th = injection_after_header [OF h1' h2 h3 h4 [symmetric] h5 [symmetric] refl refl,
         of no_escapes "''BTCUSDT''"]
  from th a have "\<exists>p fs'. create_strategy_variant no_escapes demo_fs ''/s/strat.py'' ''BTCUSDT''
                   ''/d/BTCUSDT.csv'' ''/tmp/m'' = Inr (p, fs')
          \<and> map_option (py_split CHR 0x0A) (files fs' p)
              = Some (take 1 [''import os'', ''x = 1'']
                  @ [[], ''# Data path for '' @ ''BTCUSDT'' @ '' (injected by Multi-Asset Tester)'',
                     ''data_path = '' @ [CHR 0x22] @ ''/d/BTCUSDT.csv'' @ [CHR 0x22], []]
                  @ drop 1 [''import os'', ''x = 1''])"
    by blast
  then have ex: "\<exists>p fs'. create_strategy_variant no_escapes demo_fs ''/s/strat.py'' ''BTCUSDT''
                   ''/d/BTCUSDT.csv'' ''/tmp/m'' = Inr (p, fs')
          \<and> map_option (py_split CHR 0x0A) (files fs' p)
              = Some [''import os'', [], ''# Data path for BTCUSDT (injected by Multi-Asset Tester)'',
                      ''data_path = '' @ [CHR 0x22] @ ''/d/BTCUSDT.csv'' @ [CHR 0x22], [], ''x = 1'']"
    by simp
  from th have "(1::nat) < length [''import os'', ''x = 1''] \<longrightarrow>
                  \<not> is_header_line ([''import os'', ''x = 1''] ! 1)"
    by blast
  then have nh: "\<not> is_header_line ''x = 1''"
    by simp
  from h1 h2 h3 h4 h5 ex nh show ?thesis
    by (intro conjI)
qed

text \<open>
  C7. The text written to the variant file is a function of the source text, the asset
  symbol and the data path alone (and of the template parser of \<open>re\<close>): two runs on
  different file systems, from different source paths and into different directories,
  write the same content, or raise the same exception, as soon as the source text, the
  asset and the data path agree. Neither the clock nor the name of the strategy enters
  the content.
\<close>

theorem variant_content_pure:
  assumes "files fs1 strategy_path1 = Some source_text"
      and "files fs2 strategy_path2 = Some source_text"
      and "writable fs1 temp_dir1" and "writable fs2 temp_dir2"
  shows "map_sum id (\<lambda>(p, fs'). files fs' p)
           (create_strategy_variant esc fs1 strategy_path1 asset data_file_path temp_dir1)
         = map_sum id (\<lambda>(p, fs'). files fs' p)
           (create_strategy_variant esc fs2 strategy_path2 asset data_file_path temp_dir2)
       \<and> map_sum id (\<lambda>(p, fs'). files fs' p)
           (create_strategy_variant esc fs1 strategy_path1 asset data_file_path temp_dir1)
         = map_sum id Some (variant_code esc source_text asset data_file_path)"
proof -
  have one: "map_sum id (\<lambda>(p, fs'). files fs' p)
           (create_strategy_variant esc f sp asset data_file_path td)
         = map_sum id Some (variant_code esc source_text asset data_file_path)"
    if "files f sp = Some source_text" "writable f td" for f sp td
    using that
    by (cases "variant_code esc source_text asset data_file_path")
       (simp_all add: create_strategy_variant_def Let_def)
  from one [OF assms(1) assms(3)] one [OF assms(2) assms(4)] show ?thesis
    by simp
qed

theorem variant_content_pure_witness:
  "files demo_fs ''/s/strat.py'' = Some (''import os'' @ [CHR 0x0A] @ ''x = 1'')
   \<and> files (demo_fs\<lparr>files := [''/other/copy.py'' \<mapsto> ''import os'' @ [CHR 0x0A] @ ''x = 1'']\<rparr>)
        ''/other/copy.py'' = Some (''import os'' @ [CHR 0x0A] @ ''x = 1'')
   \<and> writable demo_fs ''/tmp/m''
   \<and> writable (demo_fs\<lparr>files := [''/other/copy.py'' \<mapsto> ''import os'' @ [CHR 0x0A] @ ''x = 1'']\<rparr>)
        ''/tmp/n''
   \<and> map_sum id (\<lambda>(p, fs'). files fs' p)
        (create_strategy_variant no_escapes demo_fs ''/s/strat.py'' ''BTCUSDT'' ''/d/BTCUSDT.csv''
           ''/tmp/m'')
      = map_sum id (\<lambda>(p, fs'). files fs' p)
        (create_strategy_variant no_escapes
           (demo_fs\<lparr>files := [''/other/copy.py'' \<mapsto> ''import os'' @ [CHR 0x0A] @ ''x = 1'']\<rparr>)
           ''/other/copy.py'' ''BTCUSDT'' ''/d/BTCUSDT.csv'' ''/tmp/n'')"
proof -
  have h1: "files demo_fs ''/s/strat.py'' = Some (''import os'' @ [CHR 0x0A] @ ''x = 1'')"
    by (simp add: demo_fs_def)
  have h2: "files (demo_fs\<lparr>files := [''/other/copy.py'' \<mapsto> ''import os'' @ [CHR 0x0A] @ ''x = 1'']\<rparr>)
        ''/other/copy.py'' = Some (''import os'' @ [CHR 0x0A] @ ''x = 1'')"
    by simp
  have h3: "writable demo_fs ''/tmp/m''"
    by (simp add: demo_fs_def)
  have h4: "writable (demo_fs\<lparr>files := [''/other/copy.py'' \<mapsto> ''import os'' @ [CHR 0x0A] @ ''x = 1'']\<rparr>)
        ''/tmp/n''"
    by (simp add: demo_fs_def)
  from variant_content_pure [OF h1 h2 h3 h4, of no_escapes "''BTCUSDT''" "''/d/BTCUSDT.csv''"]
    h1 h2 h3 h4
  show ?thesis by blast
qed

section \<open>The configured timeout\<close>

lemma overrun_run:
  "test_strategy_on_asset overrun_tester overrun_env ''/s/strat.py'' ''BTCUSDT'' ''/d/BTCUSDT.csv'' ''/tmp/m''
   = Inr \<lparr>res_strategy = ''strat'', res_asset = ''BTCUSDT'', res_data_path = ''/d/BTCUSDT.csv'',
          res_status = ''success'', res_error = None,
          res_metrics = [(''return'', 62 / 5), (''sharpe'', 37 / 20)],
          res_execution_time = 60, res_timestamp = ''2025-01-01T00:00:00'',
          res_stdout = Some scenario_d, res_stderr = Some []\<rparr>"
  by code_simp

text \<open>
  C2. The claim asks that a task whose runner call exceeds the configured timeout ends
  with the status \<open>timeout\<close> and cannot hold the pool. The code documents the timeout
  (\<open>Timeout per backtest in seconds\<close>), stores, prints and saves it, and never applies
  it: the runner is called with the variant and the environment name only, and the
  worker returns the same result under every configured timeout. Under a timeout of
  5 seconds a runner call that returns success after 60 seconds is recorded with the
  status \<open>success\<close> and an execution time of 60 seconds.
\<close>

theorem timeout_never_applied:
  "test_strategy_on_asset overrun_tester overrun_env ''/s/strat.py'' ''BTCUSDT''
       ''/d/BTCUSDT.csv'' ''/tmp/m''
     = Inr \<lparr>res_strategy = ''strat'', res_asset = ''BTCUSDT'', res_data_path = ''/d/BTCUSDT.csv'',
          res_status = ''success'', res_error = None,
          res_metrics = [(''return'', 62 / 5), (''sharpe'', 37 / 20)],
          res_execution_time = 60, res_timestamp = ''2025-01-01T00:00:00'',
          res_stdout = Some scenario_d, res_stderr = Some []\<rparr>
   \<and> timeout overrun_tester = 5
   \<and> t_end overrun_env - t_start overrun_env = 60
   \<and> test_strategy_on_asset (self\<lparr>timeout := t\<rparr>) env strategy_path asset data_path temp_dir
       = test_strategy_on_asset self env strategy_path asset data_path temp_dir"
proof -
  have c: "conda_env (self\<lparr>timeout := t\<rparr>) = conda_env self"
    by simp
  have ind: "test_strategy_on_asset (self\<lparr>timeout := t\<rparr>) env strategy_path asset data_path temp_dir
          = test_strategy_on_asset self env strategy_path asset data_path temp_dir"
    unfolding test_strategy_on_asset_def try_body_def c ..
  have tm: "timeout overrun_tester = 5"
    by (simp add: overrun_tester_def)
  have el: "t_end overrun_env - t_start overrun_env = 60"
    by (simp add: overrun_env_def slow_env_def)
  from overrun_run tm el ind show ?thesis
    by (intro conjI)
qed

section \<open>Properties of the ranking reporter\<close>

lemma sharpe_only_run:
  "test_strategy_on_asset demo_tester sharpe_only_env ''/s/strat.py'' ''BTCUSDT''
       ''/d/BTCUSDT.csv'' ''/tmp/m''
     = Inr sharpe_only_result"
  unfolding sharpe_only_result_def by code_simp

lemma sharpe_only_ranked: "successful_with_metrics [sharpe_only_result] = [sharpe_only_result]"
  unfolding sharpe_only_result_def by code_simp

lemma sharpe_only_summary:
  "print_summary [sharpe_only_result] = Inl (Exception ''KeyError: return'')"
  unfolding sharpe_only_result_def by code_simp

lemma swm_mset:
  "mset (successful_with_metrics results)
     = mset (filter (\<lambda>r. res_status r = ''success'' \<and> map_of (res_metrics r) ''sharpe'' \<noteq> None)
               results)"
  by (simp add: successful_with_metrics_def conj_commute)

lemma swm_sorted:
  "sorted (map (\<lambda>r. - sort_key_sharpe r) (successful_with_metrics results))"
  by (simp add: successful_with_metrics_def)

lemma sum_list_mset_cong:
  fixes g :: "'a \<Rightarrow> rat"
  shows "mset xs = mset ys \<Longrightarrow> sum_list (map g xs) = sum_list (map g ys)"
  by (metis mset_map sum_mset_sum_list)

lemma sum_metric_Inr:
  "\<forall>r \<in> set rs. map_of (res_metrics r) k \<noteq> None
   \<Longrightarrow> sum_metric k rs = Inr (sum_list (map (\<lambda>r. the (map_of (res_metrics r) k)) rs))"
  by (induction rs) (auto simp: dict_index_def)

lemma sum_metric_InrD:
  "sum_metric k rs = Inr v
   \<Longrightarrow> (\<forall>r \<in> set rs. map_of (res_metrics r) k \<noteq> None)
       \<and> v = sum_list (map (\<lambda>r. the (map_of (res_metrics r) k)) rs)"
  by (induction rs arbitrary: v) (auto simp: dict_index_def split: option.splits sum.splits)

lemma table_rows_Inr:
  "\<forall>r \<in> set rs. \<forall>t. map_of (res_metrics r) ''trades'' = Some t \<longrightarrow> \<not> double_overflows t
   \<Longrightarrow> \<exists>rows. table_rows i rs = Inr rows"
proof (induction rs arbitrary: i)
  case Nil
  then show ?case by simp
next
  case (Cons r rs)
  from Cons.IH [of "i + 1"] Cons.prems obtain rows where rows: "table_rows (i + 1) rs = Inr rows"
    by auto
  from Cons.prems obtain tr where
    "(case map_of (res_metrics r) ''trades'' of None \<Rightarrow> Inr None
       | Some t \<Rightarrow> map_sum id Some (py_int t)) = Inr tr"
    by (cases "map_of (res_metrics r) ''trades''") (auto simp: py_int_def)
  with rows show ?case by (simp add: Let_def)
qed

lemma ranking_of_InrD:
  "ranking_of swm = Inr rk \<Longrightarrow>
     rk_ranked rk = swm
     \<and> rk_avg_sharpe rk = sum_list (map (\<lambda>r. the (map_of (res_metrics r) ''sharpe'')) swm)
                            / of_nat (length swm)
     \<and> rk_avg_return rk = sum_list (map (\<lambda>r. the (map_of (res_metrics r) ''return'')) swm)
                            / of_nat (length swm)"
  unfolding ranking_of_def Let_def
  by (auto split: sum.splits dest!: sum_metric_InrD)

lemma ranking_of_Inr:
  assumes "swm \<noteq> []"
      and "\<forall>r \<in> set swm. map_of (res_metrics r) ''sharpe'' \<noteq> None"
      and "\<forall>r \<in> set swm. map_of (res_metrics r) ''return'' \<noteq> None"
      and "\<forall>r \<in> set swm. \<forall>t. map_of (res_metrics r) ''trades'' = Some t \<longrightarrow> \<not> double_overflows t"
  shows "\<exists>rk. ranking_of swm = Inr rk"
proof -
  have h: "hd swm \<in> set swm" and l: "last swm \<in> set swm"
    using assms(1) by simp_all
  from h l assms(2,3) obtain bs br ws wr where
    "map_of (res_metrics (hd swm)) ''sharpe'' = Some bs"
    "map_of (res_metrics (hd swm)) ''return'' = Some br"
    "map_of (res_metrics (last swm)) ''sharpe'' = Some ws"
    "map_of (res_metrics (last swm)) ''return'' = Some wr"
    by (metis not_None_eq)
  moreover from table_rows_Inr [OF assms(4)] obtain rows where "table_rows 1 swm = Inr rows"
    by blast
  ultimately show ?thesis
    unfolding ranking_of_def Let_def
    by (simp add: dict_index_def sum_metric_Inr [OF assms(2)] sum_metric_Inr [OF assms(3)])
qed

lemma print_summary_ranking:
  "print_summary results = Inr (Some s) \<Longrightarrow> sm_ranking s = Some rk
   \<Longrightarrow> ranking_of (successful_with_metrics results) = Inr rk"
  unfolding print_summary_def Let_def
  by (auto split: if_splits sum.splits)

text \<open>
  Where \<open>print_summary\<close> does report means they are those the claim C8 describes: the
  ranked list is the stable descending sort of exactly the successes with a Sharpe
  value, and the averages are the arithmetic means over exactly those entries. They
  are reported when that list is not empty, every entry has a return value and no
  trades value is an infinity.
\<close>

lemma summary_means_when_reported:
  assumes "F = filter (\<lambda>r. res_status r = ''success''
                          \<and> map_of (res_metrics r) ''sharpe'' \<noteq> None) results"
      and "mean_sharpe = sum_list (map (\<lambda>r. the (map_of (res_metrics r) ''sharpe'')) F)
                           / of_nat (length F)"
      and "mean_return = sum_list (map (\<lambda>r. the (map_of (res_metrics r) ''return'')) F)
                           / of_nat (length F)"
  shows "mset (successful_with_metrics results) = mset F
       \<and> sorted (map (\<lambda>r. - sort_key_sharpe r) (successful_with_metrics results))
       \<and> (F \<noteq> [] \<and> (\<forall>r \<in> set F. map_of (res_metrics r) ''return'' \<noteq> None)
            \<and> (\<forall>r \<in> set F. \<forall>t. map_of (res_metrics r) ''trades'' = Some t
                                \<longrightarrow> \<not> double_overflows t) \<longrightarrow>
            (\<exists>s rk. print_summary results = Inr (Some s) \<and> sm_ranking s = Some rk
                   \<and> rk_ranked rk = successful_with_metrics results
                   \<and> rk_avg_sharpe rk = mean_sharpe \<and> rk_avg_return rk = mean_return))
       \<and> (\<forall>s rk. print_summary results = Inr (Some s) \<longrightarrow> sm_ranking s = Some rk \<longrightarrow>
            rk_ranked rk = successful_with_metrics results
            \<and> rk_avg_sharpe rk = mean_sharpe \<and> rk_avg_return rk = mean_return)"
proof -
  let ?swm = "successful_with_metrics results"
  have ms: "mset ?swm = mset F"
    unfolding assms(1) by (rule swm_mset)
  then have len: "length ?swm = length F"
    by (metis size_mset)
  have set_eq: "set ?swm = set F"
    using ms by (metis set_mset_mset)
  have sums: "sum_list (map g ?swm) = sum_list (map g F)" for g :: "test_result \<Rightarrow> rat"
    using ms by (rule sum_list_mset_cong)
  have srt: "sorted (map (\<lambda>r. - sort_key_sharpe r) ?swm)"
    by (rule swm_sorted)
  have conv: "rk_ranked rk = ?swm \<and> rk_avg_sharpe rk = mean_sharpe \<and> rk_avg_return rk = mean_return"
    if "print_summary results = Inr (Some s)" "sm_ranking s = Some rk" for s rk
    using ranking_of_InrD [OF print_summary_ranking [OF that]]
    by (simp add: assms(2,3) sums len)
  have forth: "\<exists>s rk. print_summary results = Inr (Some s) \<and> sm_ranking s = Some rk
                   \<and> rk_ranked rk = ?swm
                   \<and> rk_avg_sharpe rk = mean_sharpe \<and> rk_avg_return rk = mean_return"
    if ne: "F \<noteq> []" and ret: "\<forall>r \<in> set F. map_of (res_metrics r) ''return'' \<noteq> None"
      and tr: "\<forall>r \<in> set F. \<forall>t. map_of (res_metrics r) ''trades'' = Some t
                                \<longrightarrow> \<not> double_overflows t"
  proof -
    have swm_ne: "?swm \<noteq> []"
      using ne len by auto
    have res_ne: "results \<noteq> []"
      using ne assms(1) by auto
    have sh: "\<forall>r \<in> set ?swm. map_of (res_metrics r) ''sharpe'' \<noteq> None"
      unfolding set_eq assms(1) by simp
    have rt: "\<forall>r \<in> set ?swm. map_of (res_metrics r) ''return'' \<noteq> None"
      unfolding set_eq using ret by simp
    have tt: "\<forall>r \<in> set ?swm. \<forall>t. map_of (res_metrics r) ''trades'' = Some t
                                \<longrightarrow> \<not> double_overflows t"
      unfolding set_eq using tr by simp
    from ranking_of_Inr [OF swm_ne sh rt tt] obtain rk where rk: "ranking_of ?swm = Inr rk"
      by blast
    then obtain s where s: "print_summary results = Inr (Some s)" "sm_ranking s = Some rk"
      using swm_ne res_ne by (simp add: print_summary_def Let_def)
    from conv [OF s] s show ?thesis by blast
  qed
  from ms srt forth conv show ?thesis by blast
qed

text \<open>
  Two concrete summaries: the demo results, and a success whose trades text is too
  long for a double, where the table loop raises before any mean is printed.
\<close>

lemma huge_trades_overflow: "py_int huge_trades = Inl (Exception ''OverflowError'')"
  by (simp add: py_int_def double_overflows_def huge_trades_def)

lemma overflow_breaks_table:
  "print_summary [result_with ''BTCUSDT'' ''success''
                    [(''return'', 2), (''sharpe'', 1), (''trades'', huge_trades)]]
     = Inl (Exception ''OverflowError'')"
  by (simp add: print_summary_def successful_with_metrics_def result_with_def ranking_of_def
        Let_def huge_trades_overflow)

lemma demo_summary:
  "\<exists>s rk. print_summary demo_results = Inr (Some s) \<and> sm_total s = 3 \<and> sm_successful s = 2
      \<and> sm_failed s = 1 \<and> sm_ranking s = Some rk
      \<and> rk_table rk = [(1, ''ETHUSDT'', Some 3, Some 4, None, None),
                        (2, ''BTCUSDT'', Some 1, Some 2, None, None)]
      \<and> rk_avg_sharpe rk = 2 \<and> rk_avg_return rk = 3"
  by (simp add: print_summary_def successful_with_metrics_def demo_results_def result_with_def
        ranking_of_def Let_def sort_key_sharpe_def dict_index_def)

text \<open>
  C8. The claim asks, for every result list, that the reported mean Sharpe and mean
  return are the means over the successes with a Sharpe value. The table loop treats
  a missing return as \<open>'N/A'\<close>; the lines for the best and the worst asset and the
  average index \<open>r['metrics']['return']\<close> directly. For the result the worker returns
  when the runner prints a Sharpe line and no return line, the entry is ranked and
  \<open>print_summary\<close> raises \<open>KeyError\<close>: no mean is reported.
\<close>

theorem missing_return_breaks_summary:
  "test_strategy_on_asset demo_tester sharpe_only_env ''/s/strat.py'' ''BTCUSDT''
       ''/d/BTCUSDT.csv'' ''/tmp/m''
     = Inr sharpe_only_result
   \<and> res_status sharpe_only_result = ''success''
   \<and> res_metrics sharpe_only_result = [(''sharpe'', 37 / 20)]
   \<and> successful_with_metrics [sharpe_only_result] = [sharpe_only_result]
   \<and> print_summary [sharpe_only_result] = Inl (Exception ''KeyError: return'')"
proof -
  have "res_status sharpe_only_result = ''success''"
    "res_metrics sharpe_only_result = [(''sharpe'', 37 / 20)]"
    by (simp_all add: sharpe_only_result_def)
  with sharpe_only_run sharpe_only_ranked sharpe_only_summary show ?thesis
    by (intro conjI)
qed

section \<open>Properties of the orchestrator\<close>

lemma crash_run: "test_strategy_on_all_assets demo_tester crash_pool ''/s/strat.py'' = Inr []"
  by code_simp

lemma negative_workers_run:
  "test_strategy_on_all_assets negative_tester two_pool ''/s/strat.py'' = Inl (Exception ''ValueError'')"
  by code_simp

lemma two_run:
  "test_strategy_on_all_assets two_tester two_pool ''/s/strat.py'' =
   Inr [\<lparr>res_strategy = ''strat'', res_asset = ''ETHUSDT'', res_data_path = ''/d/ETHUSDT.csv'',
          res_status = ''error'', res_error = Some ''TimeoutExpired'', res_metrics = [],
          res_execution_time = 1000, res_timestamp = ''2025-01-01T00:00:00'',
          res_stdout = None, res_stderr = None\<rparr>,
        \<lparr>res_strategy = ''strat'', res_asset = ''BTCUSDT'', res_data_path = ''/d/BTCUSDT.csv'',
          res_status = ''failed'', res_error = Some ''division by zero'', res_metrics = [],
          res_execution_time = 2, res_timestamp = ''2025-01-01T00:00:00'',
          res_stdout = None, res_stderr = Some ''Traceback''\<rparr>]"
  by code_simp

lemma worker_catches_Exception:
  "test_strategy_on_asset self env sp a dp td \<noteq> Inl (Exception msg)"
  by (auto simp: test_strategy_on_asset_def Let_def split: sum.splits exn.splits)

lemma try_body_asset:
  "try_body self env result sp a dp td = Inr r \<Longrightarrow> res_asset r = res_asset result"
  by (auto simp: try_body_def Let_def split: sum.splits prod.splits if_splits)

lemma worker_asset:
  "test_strategy_on_asset self env sp a dp td = Inr r \<Longrightarrow> res_asset r = a"
  unfolding test_strategy_on_asset_def Let_def
  by (auto split: sum.splits exn.splits dest!: try_body_asset)

lemma worker_variant_error:
  "create_strategy_variant (template_esc env) (fs env) sp a dp td = Inl (Exception msg)
   \<Longrightarrow> \<exists>r. test_strategy_on_asset self env sp a dp td = Inr r \<and> res_asset r = a
           \<and> res_status r = ''error'' \<and> res_error r = Some msg"
  by (simp add: test_strategy_on_asset_def try_body_def Let_def)

lemma worker_runner_error:
  "create_strategy_variant (template_esc env) (fs env) sp a dp td = Inr (p, fs')
   \<Longrightarrow> run_backtest_in_conda env p (conda_env self) fs' = Inl (Exception msg)
   \<Longrightarrow> \<exists>r. test_strategy_on_asset self env sp a dp td = Inr r \<and> res_asset r = a
           \<and> res_status r = ''error'' \<and> res_error r = Some msg"
  by (simp add: test_strategy_on_asset_def try_body_def Let_def)

lemma worker_runner_failed:
  "create_strategy_variant (template_esc env) (fs env) sp a dp td = Inr (p, fs')
   \<Longrightarrow> run_backtest_in_conda env p (conda_env self) fs' = Inr bt
   \<Longrightarrow> bt_success bt \<noteq> Some True
   \<Longrightarrow> \<exists>r. test_strategy_on_asset self env sp a dp td = Inr r \<and> res_asset r = a
           \<and> res_status r = ''failed''
           \<and> res_error r = Some (dict_get (bt_error bt) ''Unknown error'')"
  by (simp add: test_strategy_on_asset_def try_body_def Let_def)

lemma collect_Inr:
  "collect futures acc n = Inr (rs, c) \<Longrightarrow> rs = acc @ returned futures \<and> c = n + length futures"
  by (induction futures acc n rule: collect.induct) auto

lemma collect_total:
  "\<forall>f \<in> set futures. \<forall>msg. f \<noteq> Inl (BaseException msg)
   \<Longrightarrow> \<exists>rs c. collect futures acc n = Inr (rs, c)"
  by (induction futures acc n rule: collect.induct) auto

lemma returned_filter: "returned futures = map projr (filter (\<lambda>f. \<not> isl f) futures)"
  by (induction futures rule: returned.induct) auto

lemma mset_returned: "mset xs = mset ys \<Longrightarrow> mset (returned xs) = mset (returned ys)"
  by (simp add: returned_filter)

lemma length_returned: "length (returned futures) \<le> length futures"
  by (simp add: returned_filter)

lemma length_returned_eq:
  "(length (returned futures) = length futures) = (\<forall>f \<in> set futures. \<exists>r. f = Inr r)"
proof (induction futures rule: returned.induct)
  case 1
  then show ?case by simp
next
  case (2 r futures)
  then show ?case by auto
next
  case (3 e futures)
  have "length (returned futures) \<le> length futures" by (rule length_returned)
  then show ?case by auto
qed

lemma returned_all_Inr:
  "\<forall>t \<in> set ts. f t = Inr (g t) \<Longrightarrow> returned (map f ts) = map g ts"
  by (induction ts) auto

lemma run_InrD:
  assumes "test_strategy_on_all_assets self pool strategy_path = Inr rs"
      and "mkdtemp pool = Inr temp_dir"
      and "available_assets self \<noteq> []"
  shows "\<exists>c. collect (as_completed pool (map (future_result self pool)
                (make_tasks self strategy_path temp_dir))) [] 0 = Inr (rs, c)"
  using assms
  by (auto simp: test_strategy_on_all_assets_def Let_def split: sum.splits)

lemma run_started:
  assumes "mkdtemp pool = Inr temp_dir"
      and "executor_init (max_workers self) (max_pool_workers pool) = Inr ()"
      and "available_assets self \<noteq> []"
  shows "test_strategy_on_all_assets self pool strategy_path =
       (case collect (as_completed pool (map (future_result self pool)
                (make_tasks self strategy_path temp_dir))) [] 0 of
          Inl e \<Rightarrow> Inl e | Inr (results, completed) \<Rightarrow> Inr results)"
  using assms by (simp add: test_strategy_on_all_assets_def Let_def)

lemma executor_init_ok:
  "0 < n \<Longrightarrow> (\<forall>m. limit = Some m \<longrightarrow> n \<le> m) \<Longrightarrow> executor_init n limit = Inr ()"
  by (cases limit) (auto simp: executor_init_def)

text \<open>
  C1 as stated (N records for N assets however the tasks end) does not hold: for a
  catalog of one asset whose worker process dies, the future raises, the handler of
  the collecting loop prints it, and the run returns the empty list.
\<close>

theorem dropped_task_counterexample:
  "test_strategy_on_all_assets demo_tester crash_pool ''/s/strat.py'' = Inr []
   \<and> length (available_assets demo_tester) = 1
   \<and> map (future_result demo_tester crash_pool)
        (make_tasks demo_tester ''/s/strat.py'' ''/tmp/m'')
       = [Inl (Exception ''BrokenProcessPool'')]"
  using crash_run
  by (simp add: demo_tester_def crash_pool_def future_result_def make_tasks_def)

text \<open>
  C1, as the code has it. The list returned holds one record per future that returned,
  in completion order, so at most N records for a catalog of N assets. A task that
  fails inside a live worker still returns its record: status \<open>error\<close> with the message
  when the variant generator or the runner raises an \<open>Exception\<close>, status \<open>failed\<close> with
  the runner's error text when the runner reports failure. The only futures that raise
  are those of a worker process that died and those a non-\<open>Exception\<close>
  \<open>BaseException\<close> left; the handler of the collecting loop prints such a future and
  appends nothing. When the temporary directory and the pool can be created (a positive
  worker count within the platform's limit), no worker process dies and no
  \<open>BaseException\<close> leaves a worker, the list has exactly N records, one per asset, each
  with status \<open>success\<close>, \<open>failed\<close> or \<open>error\<close>.
\<close>

theorem results_are_returned_futures:
  assumes "mkdtemp pool = Inr temp_dir"
      and "futures = map (future_result self pool)
                       (make_tasks self strategy_path temp_dir)"
      and "mset (as_completed pool futures) = mset futures"
      and "N = length (available_assets self)"
  shows "(\<forall>rs. test_strategy_on_all_assets self pool strategy_path = Inr rs \<longrightarrow>
            rs = returned (as_completed pool futures)
            \<and> length rs \<le> N
            \<and> ((length rs = N) = (\<forall>f \<in> set futures. \<exists>r. f = Inr r)))
       \<and> (0 < max_workers self
           \<and> (\<forall>m. max_pool_workers pool = Some m \<longrightarrow> max_workers self \<le> m)
           \<and> (\<forall>(asset, data_path) \<in> set (available_assets self).
                \<not> crashed pool asset
                \<and> (\<forall>msg. test_strategy_on_asset self (worker_env pool asset) strategy_path
                             asset data_path temp_dir \<noteq> Inl (BaseException msg)))
            \<longrightarrow> (\<exists>rs. test_strategy_on_all_assets self pool strategy_path = Inr rs
                  \<and> length rs = N
                  \<and> mset (map res_asset rs) = mset (map fst (available_assets self))
                  \<and> (\<forall>r \<in> set rs. res_status r \<in> {''success'', ''failed'', ''error''})))
       \<and> (\<forall>sp asset dp td msg. \<not> crashed pool asset \<longrightarrow>
             create_strategy_variant (template_esc (worker_env pool asset))
                 (fs (worker_env pool asset)) sp asset dp td = Inl (Exception msg) \<longrightarrow>
             (\<exists>r. future_result self pool (sp, asset, dp, td) = Inr r \<and> res_asset r = asset
                  \<and> res_status r = ''error'' \<and> res_error r = Some msg))
       \<and> (\<forall>sp asset dp td p fs' msg. \<not> crashed pool asset \<longrightarrow>
             create_strategy_variant (template_esc (worker_env pool asset))
                 (fs (worker_env pool asset)) sp asset dp td = Inr (p, fs') \<longrightarrow>
             run_backtest_in_conda (worker_env pool asset) p (conda_env self) fs'
                 = Inl (Exception msg) \<longrightarrow>
             (\<exists>r. future_result self pool (sp, asset, dp, td) = Inr r \<and> res_asset r = asset
                  \<and> res_status r = ''error'' \<and> res_error r = Some msg))
       \<and> (\<forall>sp asset dp td p fs' bt. \<not> crashed pool asset \<longrightarrow>
             create_strategy_variant (template_esc (worker_env pool asset))
                 (fs (worker_env pool asset)) sp asset dp td = Inr (p, fs') \<longrightarrow>
             run_backtest_in_conda (worker_env pool asset) p (conda_env self) fs' = Inr bt \<longrightarrow>
             bt_success bt \<noteq> Some True \<longrightarrow>
             (\<exists>r. future_result self pool (sp, asset, dp, td) = Inr r \<and> res_asset r = asset
                  \<and> res_status r = ''failed''
                  \<and> res_error r = Some (dict_get (bt_error bt) ''Unknown error'')))
       \<and> (\<forall>sp asset dp td msg. \<not> crashed pool asset \<longrightarrow>
             future_result self pool (sp, asset, dp, td) \<noteq> Inl (Exception msg))"
proof -
  let ?tasks = "make_tasks self strategy_path temp_dir"
  let ?done = "as_completed pool futures"
  let ?run = "test_strategy_on_all_assets self pool strategy_path"
  have lenf: "length futures = N"
    by (simp add: assms(2,4) make_tasks_def)
  have len: "length ?done = N"
    using assms(3) lenf by (metis size_mset)
  have dset: "set ?done = set futures"
    using assms(3) by (metis set_mset_mset)
  have empty: "?done = []" "futures = []" if "available_assets self = []"
    using len lenf that assms(4) by simp_all
  have c1: "rs = returned ?done \<and> length rs \<le> N
            \<and> ((length rs = N) = (\<forall>f \<in> set futures. \<exists>r. f = Inr r))"
    if r: "?run = Inr rs" for rs
  proof -
    have eq: "rs = returned ?done"
    proof (cases "available_assets self = []")
      case True
      with r have "rs = []" by (simp add: test_strategy_on_all_assets_def)
      with empty [OF True] show ?thesis by simp
    next
      case False
      from run_InrD [OF r assms(1) False] obtain c where "collect ?done [] 0 = Inr (rs, c)"
        unfolding assms(2) by blast
      then show ?thesis by (auto dest: collect_Inr)
    qed
    have le: "length rs \<le> N"
      unfolding eq using length_returned [of ?done] len by simp
    have "(length rs = N) = (length (returned ?done) = length ?done)"
      unfolding eq using len by simp
    also have "\<dots> = (\<forall>f \<in> set ?done. \<exists>r. f = Inr r)"
      by (rule length_returned_eq)
    also have "\<dots> = (\<forall>f \<in> set futures. \<exists>r. f = Inr r)"
      unfolding dset ..
    finally show ?thesis using eq le by blast
  qed
  have c3a: "\<exists>r. future_result self pool (sp, asset, dp, td) = Inr r \<and> res_asset r = asset
                  \<and> res_status r = ''error'' \<and> res_error r = Some msg"
    if "\<not> crashed pool asset"
       "create_strategy_variant (template_esc (worker_env pool asset))
                 (fs (worker_env pool asset)) sp asset dp td = Inl (Exception msg)"
    for sp asset dp td msg
    using that(1) worker_variant_error [OF that(2), of self] by (simp add: future_result_def)
  have c3b: "\<exists>r. future_result self pool (sp, asset, dp, td) = Inr r \<and> res_asset r = asset
                  \<and> res_status r = ''error'' \<and> res_error r = Some msg"
    if "\<not> crashed pool asset"
       "create_strategy_variant (template_esc (worker_env pool asset))
                 (fs (worker_env pool asset)) sp asset dp td = Inr (p, fs')"
       "run_backtest_in_conda (worker_env pool asset) p (conda_env self) fs' = Inl (Exception msg)"
    for sp asset dp td p fs' msg
    using that(1) worker_runner_error [OF that(2,3)] by (simp add: future_result_def)
  have c3c: "\<exists>r. future_result self pool (sp, asset, dp, td) = Inr r \<and> res_asset r = asset
                  \<and> res_status r = ''failed''
                  \<and> res_error r = Some (dict_get (bt_error bt) ''Unknown error'')"
    if "\<not> crashed pool asset"
       "create_strategy_variant (template_esc (worker_env pool asset))
                 (fs (worker_env pool asset)) sp asset dp td = Inr (p, fs')"
       "run_backtest_in_conda (worker_env pool asset) p (conda_env self) fs' = Inr bt"
       "bt_success bt \<noteq> Some True"
    for sp asset dp td p fs' bt
    using that(1) worker_runner_failed [OF that(2,3,4)] by (simp add: future_result_def)
  have no_exc: "future_result self pool (sp, asset, dp, td) \<noteq> Inl (Exception msg)"
    if "\<not> crashed pool asset" for sp asset dp td msg
    using that by (simp add: future_result_def worker_catches_Exception)
  have c2: "\<exists>rs. ?run = Inr rs \<and> length rs = N
             \<and> mset (map res_asset rs) = mset (map fst (available_assets self))
             \<and> (\<forall>r \<in> set rs. res_status r \<in> {''success'', ''failed'', ''error''})"
    if pos: "0 < max_workers self"
      and lim: "\<forall>m. max_pool_workers pool = Some m \<longrightarrow> max_workers self \<le> m"
      and ok: "\<forall>(asset, data_path) \<in> set (available_assets self).
                \<not> crashed pool asset
                \<and> (\<forall>msg. test_strategy_on_asset self (worker_env pool asset) strategy_path
                             asset data_path temp_dir \<noteq> Inl (BaseException msg))"
  proof (cases "available_assets self = []")
    case True
    then have "?run = Inr []" by (simp add: test_strategy_on_all_assets_def)
    with True assms(4) show ?thesis by simp
  next
    case False
    have ex: "executor_init (max_workers self) (max_pool_workers pool) = Inr ()"
      using pos lim by (rule executor_init_ok)
    have run: "?run = (case collect ?done [] 0 of
                        Inl e \<Rightarrow> Inl e | Inr (results, completed) \<Rightarrow> Inr results)"
      unfolding assms(2) by (rule run_started [OF assms(1) ex False])
    define g where "g t = projr (future_result self pool t)" for t
    have fg: "future_result self pool t = Inr (g t) \<and> res_asset (g t) = fst (snd t)
               \<and> res_status (g t) \<in> {''success'', ''failed'', ''error''}"
      if "t \<in> set ?tasks" for t
    proof -
      from that obtain asset data_path where
        a: "(asset, data_path) \<in> set (available_assets self)"
        and t: "t = (strategy_path, asset, data_path, temp_dir)"
        by (auto simp: make_tasks_def)
      from ok a have nc: "\<not> crashed pool asset"
        and nb: "\<And>msg. test_strategy_on_asset self (worker_env pool asset) strategy_path
                           asset data_path temp_dir \<noteq> Inl (BaseException msg)"
        by auto
      let ?w = "test_strategy_on_asset self (worker_env pool asset) strategy_path
                  asset data_path temp_dir"
      have fw: "future_result self pool t = ?w"
        using nc by (simp add: future_result_def t)
      obtain r where r: "?w = Inr r"
      proof (cases ?w)
        case (Inl e)
        with nb worker_catches_Exception [of self "worker_env pool asset" strategy_path
            asset data_path temp_dir]
        show ?thesis by (cases e) auto
      next
        case (Inr r)
        with that show ?thesis by blast
      qed
      have "res_asset r = asset" using r by (rule worker_asset)
      moreover have "res_status r \<in> {''success'', ''failed'', ''error''}"
        using test_strategy_on_asset_cases [OF r] by auto
      ultimately show ?thesis using fw r by (simp add: g_def t)
    qed
    have rfut: "returned futures = map g ?tasks"
      unfolding assms(2) by (rule returned_all_Inr) (use fg in blast)
    have "\<forall>f \<in> set futures. \<forall>msg. f \<noteq> Inl (BaseException msg)"
      unfolding assms(2) using fg by auto
    then have nobase: "\<forall>f \<in> set ?done. \<forall>msg. f \<noteq> Inl (BaseException msg)"
      using dset by simp
    from collect_total [OF nobase, of "[]" 0] obtain rs c
      where col: "collect ?done [] 0 = Inr (rs, c)"
      by blast
    then have rs: "rs = returned ?done"
      by (auto dest: collect_Inr)
    have mrs: "mset rs = mset (map g ?tasks)"
      unfolding rs using mset_returned [OF assms(3)] rfut by simp
    have "map res_asset (map g ?tasks) = map (\<lambda>t. fst (snd t)) ?tasks"
      using fg by simp
    also have "\<dots> = map fst (available_assets self)"
      by (simp add: make_tasks_def case_prod_beta comp_def)
    finally have "map res_asset (map g ?tasks) = map fst (available_assets self)" .
    moreover have "mset (map res_asset rs) = mset (map res_asset (map g ?tasks))"
      using mrs by (metis mset_map)
    ultimately have ms: "mset (map res_asset rs) = mset (map fst (available_assets self))"
      by simp
    have "set rs = g ` set ?tasks"
      using mrs by (metis set_mset_mset set_map)
    with fg have st: "\<forall>r \<in> set rs. res_status r \<in> {''success'', ''failed'', ''error''}"
      by auto
    have "length rs = N"
      using mrs assms(4) by (metis length_map size_mset make_tasks_def)
    with col ms st show ?thesis
      unfolding run by auto
  qed
  have C1: "\<forall>rs. ?run = Inr rs \<longrightarrow>
            rs = returned ?done
            \<and> length rs \<le> N
            \<and> ((length rs = N) = (\<forall>f \<in> set futures. \<exists>r. f = Inr r))"
    using c1 by blast
  have C2: "0 < max_workers self
           \<and> (\<forall>m. max_pool_workers pool = Some m \<longrightarrow> max_workers self \<le> m)
           \<and> (\<forall>(asset, data_path) \<in> set (available_assets self).
                \<not> crashed pool asset
                \<and> (\<forall>msg. test_strategy_on_asset self (worker_env pool asset) strategy_path
                             asset data_path temp_dir \<noteq> Inl (BaseException msg)))
            \<longrightarrow> (\<exists>rs. ?run = Inr rs
                  \<and> length rs = N
                  \<and> mset (map res_asset rs) = mset (map fst (available_assets self))
                  \<and> (\<forall>r \<in> set rs. res_status r \<in> {''success'', ''failed'', ''error''}))"
  proof
    assume h: "0 < max_workers self
           \<and> (\<forall>m. max_pool_workers pool = Some m \<longrightarrow> max_workers self \<le> m)
           \<and> (\<forall>(asset, data_path) \<in> set (available_assets self).
                \<not> crashed pool asset
                \<and> (\<forall>msg. test_strategy_on_asset self (worker_env pool asset) strategy_path
                             asset data_path temp_dir \<noteq> Inl (BaseException msg)))"
    show "\<exists>rs. ?run = Inr rs
                  \<and> length rs = N
                  \<and> mset (map res_asset rs) = mset (map fst (available_assets self))
                  \<and> (\<forall>r \<in> set rs. res_status r \<in> {''success'', ''failed'', ''error''})"
      by (rule c2) (use h in simp_all)
  qed
  have C3a: "\<forall>sp asset dp td msg. \<not> crashed pool asset \<longrightarrow>
             create_strategy_variant (template_esc (worker_env pool asset))
                 (fs (worker_env pool asset)) sp asset dp td = Inl (Exception msg) \<longrightarrow>
             (\<exists>r. future_result self pool (sp, asset, dp, td) = Inr r \<and> res_asset r = asset
                  \<and> res_status r = ''error'' \<and> res_error r = Some msg)"
    by (intro allI impI) (rule c3a)
  have C3b: "\<forall>sp asset dp td p fs' msg. \<not> crashed pool asset \<longrightarrow>
             create_strategy_variant (template_esc (worker_env pool asset))
                 (fs (worker_env pool asset)) sp asset dp td = Inr (p, fs') \<longrightarrow>
             run_backtest_in_conda (worker_env pool asset) p (conda_env self) fs'
                 = Inl (Exception msg) \<longrightarrow>
             (\<exists>r. future_result self pool (sp, asset, dp, td) = Inr r \<and> res_asset r = asset
                  \<and> res_status r = ''error'' \<and> res_error r = Some msg)"
    by (intro allI impI) (rule c3b)
  have C3c: "\<forall>sp asset dp td p fs' bt. \<not> crashed pool asset \<longrightarrow>
             create_strategy_variant (template_esc (worker_env pool asset))
                 (fs (worker_env pool asset)) sp asset dp td = Inr (p, fs') \<longrightarrow>
             run_backtest_in_conda (worker_env pool asset) p (conda_env self) fs' = Inr bt \<longrightarrow>
             bt_success bt \<noteq> Some True \<longrightarrow>
             (\<exists>r. future_result self pool (sp, asset, dp, td) = Inr r \<and> res_asset r = asset
                  \<and> res_status r = ''failed''
                  \<and> res_error r = Some (dict_get (bt_error bt) ''Unknown error''))"
    by (intro allI impI) (rule c3c)
  have NE: "\<forall>sp asset dp td msg. \<not> crashed pool asset \<longrightarrow>
             future_result self pool (sp, asset, dp, td) \<noteq> Inl (Exception msg)"
    by (intro allI impI) (rule no_exc)
  from C1 C2 C3a C3b C3c NE show ?thesis
    by (intro conjI)
qed

lemma two_pool_workers:
  "test_strategy_on_asset two_tester (worker_env two_pool ''BTCUSDT'') ''/s/strat.py''
     ''BTCUSDT'' ''/d/BTCUSDT.csv'' ''/tmp/m''
   = Inr \<lparr>res_strategy = ''strat'', res_asset = ''BTCUSDT'', res_data_path = ''/d/BTCUSDT.csv'',
          res_status = ''failed'', res_error = Some ''division by zero'', res_metrics = [],
          res_execution_time = 2, res_timestamp = ''2025-01-01T00:00:00'',
          res_stdout = None, res_stderr = Some ''Traceback''\<rparr>"
  "test_strategy_on_asset two_tester (worker_env two_pool ''ETHUSDT'') ''/s/strat.py''
     ''ETHUSDT'' ''/d/ETHUSDT.csv'' ''/tmp/m''
   = Inr \<lparr>res_strategy = ''strat'', res_asset = ''ETHUSDT'', res_data_path = ''/d/ETHUSDT.csv'',
          res_status = ''error'', res_error = Some ''TimeoutExpired'', res_metrics = [],
          res_execution_time = 1000, res_timestamp = ''2025-01-01T00:00:00'',
          res_stdout = None, res_stderr = None\<rparr>"
  by code_simp+

lemma demo_variants_written:
  "\<exists>p fs'. create_strategy_variant no_escapes demo_fs ''/s/strat.py'' ''BTCUSDT''
              ''/d/BTCUSDT.csv'' ''/tmp/m'' = Inr (p, fs')"
  "\<exists>p fs'. create_strategy_variant no_escapes demo_fs ''/s/strat.py'' ''ETHUSDT''
              ''/d/ETHUSDT.csv'' ''/tmp/m'' = Inr (p, fs')"
  by (simp_all add: create_strategy_variant_def demo_fs_def Let_def variant_code_def
        patterns_to_replace_def lit_def quote_def)

lemma missing_source:
  "create_strategy_variant no_escapes demo_fs ''/s/missing.py'' ''BTCUSDT''
     ''/d/BTCUSDT.csv'' ''/tmp/m'' = Inl (Exception ''FileNotFoundError'')"
  by (simp add: create_strategy_variant_def demo_fs_def Let_def)

theorem results_are_returned_futures_witness:
  "mkdtemp two_pool = Inr ''/tmp/m''
   \<and> mset (as_completed two_pool (map (future_result two_tester two_pool)
           (make_tasks two_tester ''/s/strat.py'' ''/tmp/m'')))
     = mset (map (future_result two_tester two_pool)
           (make_tasks two_tester ''/s/strat.py'' ''/tmp/m''))
   \<and> length (available_assets two_tester) = 2
   \<and> 0 < max_workers two_tester
   \<and> max_pool_workers two_pool = None
   \<and> list_all (\<lambda>(asset, data_path). \<not> crashed two_pool asset) (available_assets two_tester)
   \<and> (\<exists>rs. test_strategy_on_all_assets two_tester two_pool ''/s/strat.py'' = Inr rs
          \<and> length rs = 2
          \<and> map res_status rs = [''error'', ''failed'']
          \<and> mset (map res_asset rs) = mset [''BTCUSDT'', ''ETHUSDT''])
   \<and> create_strategy_variant no_escapes demo_fs ''/s/missing.py'' ''BTCUSDT''
        ''/d/BTCUSDT.csv'' ''/tmp/m'' = Inl (Exception ''FileNotFoundError'')
   \<and> (\<exists>r. future_result two_tester two_pool
              (''/s/missing.py'', ''BTCUSDT'', ''/d/BTCUSDT.csv'', ''/tmp/m'') = Inr r
          \<and> res_status r = ''error'' \<and> res_error r = Some ''FileNotFoundError'')
   \<and> (\<exists>r. future_result two_tester two_pool
              (''/s/strat.py'', ''ETHUSDT'', ''/d/ETHUSDT.csv'', ''/tmp/m'') = Inr r
          \<and> res_status r = ''error'' \<and> res_error r = Some ''TimeoutExpired'')
   \<and> (\<exists>r. future_result two_tester two_pool
              (''/s/strat.py'', ''BTCUSDT'', ''/d/BTCUSDT.csv'', ''/tmp/m'') = Inr r
          \<and> res_status r = ''failed'' \<and> res_error r = Some ''division by zero'')"
proof -
  have td: "mkdtemp two_pool = Inr ''/tmp/m''"
    by (simp add: two_pool_def)
  have n: "length (available_assets two_tester) = 2"
    by (simp add: two_tester_def)
  have h3: "mset (as_completed two_pool (map (future_result two_tester two_pool)
           (make_tasks two_tester ''/s/strat.py'' ''/tmp/m'')))
     = mset (map (future_result two_tester two_pool)
           (make_tasks two_tester ''/s/strat.py'' ''/tmp/m''))"
    by (simp add: two_pool_def)
  have pos: "0 < max_workers two_tester"
    by (simp add: two_tester_def demo_tester_def)
  have nolim: "max_pool_workers two_pool = None"
    by (simp add: two_pool_def)
  then have lim: "\<forall>m. max_pool_workers two_pool = Some m \<longrightarrow> max_workers two_tester \<le> m"
    by simp
  have nc: "list_all (\<lambda>(asset, data_path). \<not> crashed two_pool asset) (available_assets two_tester)"
    by (simp add: two_pool_def two_tester_def)
  have live: "\<not> crashed two_pool ''BTCUSDT''" "\<not> crashed two_pool ''ETHUSDT''"
    by (simp_all add: two_pool_def)
  have assets: "available_assets two_tester
      = [(''BTCUSDT'', ''/d/BTCUSDT.csv''), (''ETHUSDT'', ''/d/ETHUSDT.csv'')]"
    by (simp add: two_tester_def)
  have ok: "\<forall>(asset, data_path) \<in> set (available_assets two_tester).
              \<not> crashed two_pool asset
              \<and> (\<forall>msg. test_strategy_on_asset two_tester (worker_env two_pool asset) ''/s/strat.py''
                           asset data_path ''/tmp/m'' \<noteq> Inl (BaseException msg))"
    unfolding assets using two_pool_workers by (simp add: two_pool_def)
  note th = results_are_returned_futures [OF td refl h3 n [symmetric]]
  note C2 = th [THEN conjunct2, THEN conjunct1]
  note C3a = th [THEN conjunct2, THEN conjunct2, THEN conjunct1, rule_format]
  note C3b = th [THEN conjunct2, THEN conjunct2, THEN conjunct2, THEN conjunct1, rule_format]
  note C3c = th [THEN conjunct2, THEN conjunct2, THEN conjunct2, THEN conjunct2,
                 THEN conjunct1, rule_format]
  from C2 [THEN mp, OF conjI [OF pos conjI [OF lim ok]]]
  obtain rs where rs: "test_strategy_on_all_assets two_tester two_pool ''/s/strat.py'' = Inr rs"
      "length rs = 2" "mset (map res_asset rs) = mset (map fst (available_assets two_tester))"
    by blast
  from rs(1) have st: "map res_status rs = [''error'', ''failed'']"
    unfolding two_run by auto
  have "map fst (available_assets two_tester) = [''BTCUSDT'', ''ETHUSDT'']"
    by (simp add: two_tester_def)
  with rs st have run: "\<exists>rs. test_strategy_on_all_assets two_tester two_pool ''/s/strat.py'' = Inr rs
          \<and> length rs = 2
          \<and> map res_status rs = [''error'', ''failed'']
          \<and> mset (map res_asset rs) = mset [''BTCUSDT'', ''ETHUSDT'']"
    by simp
  have wb: "worker_env two_pool ''BTCUSDT'' = failing_env"
    and we: "worker_env two_pool ''ETHUSDT'' = raising_env"
    by (simp_all add: two_pool_def)
  have eb: "template_esc failing_env = no_escapes" "fs failing_env = demo_fs"
    and ee: "template_esc raising_env = no_escapes" "fs raising_env = demo_fs"
    by (simp_all add: failing_env_def raising_env_def)
  have miss: "create_strategy_variant (template_esc (worker_env two_pool ''BTCUSDT''))
       (fs (worker_env two_pool ''BTCUSDT'')) ''/s/missing.py'' ''BTCUSDT''
       ''/d/BTCUSDT.csv'' ''/tmp/m'' = Inl (Exception ''FileNotFoundError'')"
    unfolding wb eb by (rule missing_source)
  from C3a [OF live(1) miss]
  have a: "\<exists>r. future_result two_tester two_pool
              (''/s/missing.py'', ''BTCUSDT'', ''/d/BTCUSDT.csv'', ''/tmp/m'') = Inr r
          \<and> res_status r = ''error'' \<and> res_error r = Some ''FileNotFoundError''"
    by blast
  from demo_variants_written(2) obtain pe fe where
    ce: "create_strategy_variant (template_esc (worker_env two_pool ''ETHUSDT''))
       (fs (worker_env two_pool ''ETHUSDT'')) ''/s/strat.py'' ''ETHUSDT''
       ''/d/ETHUSDT.csv'' ''/tmp/m'' = Inr (pe, fe)"
    unfolding we ee by blast
  have re: "run_backtest_in_conda (worker_env two_pool ''ETHUSDT'') pe (conda_env two_tester) fe
       = Inl (Exception ''TimeoutExpired'')"
    unfolding we by (simp add: raising_env_def)
  from C3b [OF live(2) ce re]
  have b: "\<exists>r. future_result two_tester two_pool
              (''/s/strat.py'', ''ETHUSDT'', ''/d/ETHUSDT.csv'', ''/tmp/m'') = Inr r
          \<and> res_status r = ''error'' \<and> res_error r = Some ''TimeoutExpired''"
    by blast
  from demo_variants_written(1) obtain pb fb where
    cb: "create_strategy_variant (template_esc (worker_env two_pool ''BTCUSDT''))
       (fs (worker_env two_pool ''BTCUSDT'')) ''/s/strat.py'' ''BTCUSDT''
       ''/d/BTCUSDT.csv'' ''/tmp/m'' = Inr (pb, fb)"
    unfolding wb eb by blast
  have rb: "run_backtest_in_conda (worker_env two_pool ''BTCUSDT'') pb (conda_env two_tester) fb
       = Inr \<lparr>bt_success = Some False, bt_stdout = Some [],
           bt_stderr = Some ''Traceback'', bt_error = Some ''division by zero''\<rparr>"
    unfolding wb by (simp add: failing_env_def)
  have nf: "bt_success \<lparr>bt_success = Some False, bt_stdout = Some [],
           bt_stderr = Some ''Traceback'', bt_error = Some ''division by zero''\<rparr> \<noteq> Some True"
    by simp
  from C3c [OF live(1) cb rb nf]
  have c: "\<exists>r. future_result two_tester two_pool
              (''/s/strat.py'', ''BTCUSDT'', ''/d/BTCUSDT.csv'', ''/tmp/m'') = Inr r
          \<and> res_status r = ''failed'' \<and> res_error r = Some ''division by zero''"
    by (auto simp: dict_get_def)
  from td h3 n pos nolim nc run missing_source a b c show ?thesis
    by (intro conjI)
qed

end
